theory Spec2Isabelle
  imports Complex_Main "HOL-Library.Word" "HOL-Library.Multiset"
begin

unbundle bit_operations_syntax

section \<open>Helios: stats sampler, stats cache, log demultiplexer, bulk operations\<close>

text \<open>
  A shallow embedding of the Go server of Helios: \<^verbatim>\<open>utils/statsutil/stats.go\<close>,
  \<^verbatim>\<open>core/service/container.go\<close> (container service, log service and stats cache),
  \<^verbatim>\<open>cmd/main.go\<close> (health checker) and the container and log handlers.
\<close>

subsection \<open>Machine types\<close>

type_synonym uint64 = "64 word"
type_synonym uint32 = "32 word"
type_synonym byte = "8 word"

text \<open>
  Go's \<^verbatim>\<open>float64\<close>. A finite value carries the real number it denotes; the two
  infinities and NaN are values of their own, because the code divides by a memory limit
  that may be zero and Go's floating-point division does not panic. Every zero divisor
  in the code is the conversion of an unsigned integer, hence a positive zero.

  Addition is the one operation the code iterates (the fleet's CPU total), so its
  rounding is part of the model: the sum of two finite values is the rounding \<open>rnd\<close> of
  their exact sum, where \<open>rnd\<close>, the rounding of a real to \<^verbatim>\<open>float64\<close> (to an infinity
  on overflow), is a parameter. Nothing is assumed of it, so the addition is neither
  associative nor commutative in its effect on a sum, as binary64 addition is not.
  Conversion, multiplication and division are used once each on a sample and are left
  unrounded: the statements about them concern zero, order and the special values only.
\<close>

datatype float64 = Finite real | PosInf | NegInf | NaN

definition float64_of_nat :: "nat \<Rightarrow> float64" where
  "float64_of_nat n = Finite (real n)"

definition float64_of_uint64 :: "uint64 \<Rightarrow> float64" where
  "float64_of_uint64 w = float64_of_nat (unat w)"

fun fdiv :: "float64 \<Rightarrow> float64 \<Rightarrow> float64" where
  "fdiv (Finite x) (Finite y) =
     (if y = 0 then (if x = 0 then NaN else if 0 < x then PosInf else NegInf)
      else Finite (x / y))"
| "fdiv (Finite x) PosInf = Finite 0"
| "fdiv (Finite x) NegInf = Finite 0"
| "fdiv PosInf (Finite y) = (if 0 \<le> y then PosInf else NegInf)"
| "fdiv NegInf (Finite y) = (if 0 \<le> y then NegInf else PosInf)"
| "fdiv _ _ = NaN"

fun fmul :: "float64 \<Rightarrow> float64 \<Rightarrow> float64" where
  "fmul (Finite x) (Finite y) = Finite (x * y)"
| "fmul (Finite x) PosInf = (if x = 0 then NaN else if 0 < x then PosInf else NegInf)"
| "fmul (Finite x) NegInf = (if x = 0 then NaN else if 0 < x then NegInf else PosInf)"
| "fmul PosInf (Finite y) = (if y = 0 then NaN else if 0 < y then PosInf else NegInf)"
| "fmul NegInf (Finite y) = (if y = 0 then NaN else if 0 < y then NegInf else PosInf)"
| "fmul PosInf PosInf = PosInf"
| "fmul PosInf NegInf = NegInf"
| "fmul NegInf PosInf = NegInf"
| "fmul NegInf NegInf = PosInf"
| "fmul _ _ = NaN"

fun fadd :: "(real \<Rightarrow> float64) \<Rightarrow> float64 \<Rightarrow> float64 \<Rightarrow> float64" where
  "fadd rnd (Finite x) (Finite y) = rnd (x + y)"
| "fadd rnd (Finite x) PosInf = PosInf"
| "fadd rnd (Finite x) NegInf = NegInf"
| "fadd rnd PosInf (Finite y) = PosInf"
| "fadd rnd NegInf (Finite y) = NegInf"
| "fadd rnd PosInf PosInf = PosInf"
| "fadd rnd NegInf NegInf = NegInf"
| "fadd rnd _ _ = NaN"

text \<open>The comparison \<^verbatim>\<open>a > b\<close>: false whenever an operand is NaN.\<close>

fun fgt :: "float64 \<Rightarrow> float64 \<Rightarrow> bool" where
  "fgt (Finite x) (Finite y) = (y < x)"
| "fgt PosInf (Finite y) = True"
| "fgt PosInf NegInf = True"
| "fgt (Finite x) NegInf = True"
| "fgt _ _ = False"

subsection \<open>The daemon's stats response (the fields the server reads)\<close>

record CPUUsage =
  TotalUsage :: uint64
  PercpuUsage :: "uint64 list"

record CPUStats =
  CPUUsage :: CPUUsage
  SystemUsage :: uint64

record MemoryStats =
  Usage :: uint64
  Limit :: uint64

record NetworkStats =
  RxBytes :: uint64
  TxBytes :: uint64

record BlkioStatEntry =
  Op :: string
  Value :: uint64

record BlkioStats =
  IoServiceBytesRecursive :: "BlkioStatEntry list"

text \<open>\<^verbatim>\<open>Networks\<close> is a Go map from interface name to counters; it is only ever
  summed, so it is kept as the list of its entries.\<close>

record StatsResponse =
  CPUStats :: CPUStats
  PreCPUStats :: CPUStats
  MemoryStats :: MemoryStats
  BlkioStats :: BlkioStats
  Networks :: "(string \<times> NetworkStats) list"

subsection \<open>statsutil\<close>

text \<open>The two deltas are subtractions of \<^verbatim>\<open>uint64\<close> values, converted to
  \<^verbatim>\<open>float64\<close> afterwards: they wrap around before the conversion.\<close>

definition CalculateCPUPercent :: "StatsResponse \<Rightarrow> float64" where
  "CalculateCPUPercent stats =
     (let cpuDelta = float64_of_uint64
            (TotalUsage (CPUUsage (CPUStats stats)) - TotalUsage (CPUUsage (PreCPUStats stats)));
          systemDelta = float64_of_uint64
            (SystemUsage (CPUStats stats) - SystemUsage (PreCPUStats stats))
      in if fgt systemDelta (Finite 0) \<and> fgt cpuDelta (Finite 0)
         then fmul (fmul (fdiv cpuDelta systemDelta)
                      (float64_of_nat (length (PercpuUsage (CPUUsage (CPUStats stats))))))
                (Finite 100)
         else Finite 0)"

fun GetNetworkRx_loop :: "(string \<times> NetworkStats) list \<Rightarrow> uint64 \<Rightarrow> uint64" where
  "GetNetworkRx_loop [] total' = total'"
| "GetNetworkRx_loop ((k, v) # rest) total' = GetNetworkRx_loop rest (total' + RxBytes v)"

definition GetNetworkRx :: "StatsResponse \<Rightarrow> uint64" where
  "GetNetworkRx stats = GetNetworkRx_loop (Networks stats) 0"

fun GetNetworkTx_loop :: "(string \<times> NetworkStats) list \<Rightarrow> uint64 \<Rightarrow> uint64" where
  "GetNetworkTx_loop [] total' = total'"
| "GetNetworkTx_loop ((k, v) # rest) total' = GetNetworkTx_loop rest (total' + TxBytes v)"

definition GetNetworkTx :: "StatsResponse \<Rightarrow> uint64" where
  "GetNetworkTx stats = GetNetworkTx_loop (Networks stats) 0"

fun GetBlockRead_loop :: "BlkioStatEntry list \<Rightarrow> uint64 \<Rightarrow> uint64" where
  "GetBlockRead_loop [] total' = total'"
| "GetBlockRead_loop (bioEntry # rest) total' =
     GetBlockRead_loop rest
       (if Op bioEntry = ''Read'' \<or> Op bioEntry = ''read'' then total' + Value bioEntry
        else total')"

definition GetBlockRead :: "StatsResponse \<Rightarrow> uint64" where
  "GetBlockRead stats = GetBlockRead_loop (IoServiceBytesRecursive (BlkioStats stats)) 0"

fun GetBlockWrite_loop :: "BlkioStatEntry list \<Rightarrow> uint64 \<Rightarrow> uint64" where
  "GetBlockWrite_loop [] total' = total'"
| "GetBlockWrite_loop (bioEntry # rest) total' =
     GetBlockWrite_loop rest
       (if Op bioEntry = ''Write'' \<or> Op bioEntry = ''write'' then total' + Value bioEntry
        else total')"

definition GetBlockWrite :: "StatsResponse \<Rightarrow> uint64" where
  "GetBlockWrite stats = GetBlockWrite_loop (IoServiceBytesRecursive (BlkioStats stats)) 0"

text \<open>Case-insensitive comparison of block-io operation names, as the specification
  words the rule (ASCII letters folded to lower case).\<close>

definition toLower :: "char \<Rightarrow> char" where
  "toLower c = (let n = (of_char c :: nat) in if 65 \<le> n \<and> n \<le> 90 then char_of (n + 32) else c)"

definition spec_op_is :: "string \<Rightarrow> string \<Rightarrow> bool" where
  "spec_op_is name op = (map toLower op = name)"

definition spec_block_total :: "string \<Rightarrow> StatsResponse \<Rightarrow> uint64" where
  "spec_block_total name stats =
     sum_list (map Value (filter (\<lambda>e. spec_op_is name (Op e))
       (IoServiceBytesRecursive (BlkioStats stats))))"

subsection \<open>Errors, the daemon gateway and the service's types\<close>

text \<open>Go \<^verbatim>\<open>error\<close> values: the two \<^verbatim>\<open>io\<close> sentinels, context cancellation,
  an opaque error of the daemon, the JSON decoder or the database with its message, and
  \<^verbatim>\<open>fmt.Errorf("prefix: %w", err)\<close>.\<close>

datatype error = EOF | ErrUnexpectedEOF | Canceled | OtherError string | Wrapped string error

fun errorString :: "error \<Rightarrow> string" where
  "errorString EOF = ''EOF''"
| "errorString ErrUnexpectedEOF = ''unexpected EOF''"
| "errorString Canceled = ''context canceled''"
| "errorString (OtherError msg) = msg"
| "errorString (Wrapped prefix err) = prefix @ '': '' @ errorString err"

text \<open>A run-time panic of the Go program.\<close>

datatype panic = IndexOutOfRange | SliceBoundsOutOfRange

record Container =
  ID :: string
  Names :: "string list"

record ContainerJSON =
  Name :: string

record LogsOptions =
  ShowStdout :: bool
  ShowStderr :: bool
  Since :: string
  Until :: string
  Timestamps :: bool
  Follow :: bool
  Tail :: string

text \<open>A stats response body is abstracted to what decoding it gives
  (\<^verbatim>\<open>decodeStats\<close>): a decoding error or the decoded value.\<close>

type_synonym Body = "error + StatsResponse"

text \<open>
  The daemon behind \<^verbatim>\<open>docker.Client\<close>, over a state \<open>'d\<close> of the daemon: the
  reading calls are functions of that state, the mutating calls return the state they
  leave. A log stream is the finite sequence of bytes the reader delivers before
  end-of-file.
\<close>

record 'd DockerClient =
  ContainerList :: "'d \<Rightarrow> bool \<Rightarrow> error + Container list"
  ContainerInspect :: "'d \<Rightarrow> string \<Rightarrow> error + ContainerJSON"
  ContainerStats :: "'d \<Rightarrow> string \<Rightarrow> bool \<Rightarrow> error + Body"
  ContainerLogs :: "'d \<Rightarrow> string \<Rightarrow> LogsOptions \<Rightarrow> error + byte list"
  ContainerStart :: "'d \<Rightarrow> string \<Rightarrow> error option \<times> 'd"
  ContainerStop :: "'d \<Rightarrow> string \<Rightarrow> error option \<times> 'd"
  ContainerRestart :: "'d \<Rightarrow> string \<Rightarrow> error option \<times> 'd"
  ContainerRemove :: "'d \<Rightarrow> string \<Rightarrow> bool \<Rightarrow> error option \<times> 'd"

record ContainerStats =
  CPUPercent :: float64
  MemoryUsage :: uint64
  MemoryLimit :: uint64
  MemoryPercent :: float64
  NetworkRx :: uint64
  NetworkTx :: uint64
  BlockRead :: uint64
  BlockWrite :: uint64

record DashboardSummary =
  TotalCPUPercent :: float64
  TotalMemoryUsage :: uint64
  TotalMemoryLimit :: uint64
  TotalMemoryPercent :: float64
  TotalNetworkRx :: uint64
  TotalNetworkTx :: uint64
  ContainerCount :: int

text \<open>Database rows, without the key the database assigns and without the wall-clock
  time of the row (\<^verbatim>\<open>time.Now()\<close>).\<close>

record HealthCheckLog =
  ContainerID :: string
  ContainerName :: string
  Status :: string
  ResourceCPU :: float64
  ResourceMemory :: uint64
  ResourceMemoryLimit :: uint64
  ResourceNetworkRx :: uint64
  ResourceNetworkTx :: uint64
  ErrorMessage :: string

record ActionLog =
  ActionType :: string
  ResourceType :: string
  ResourceID :: string
  ResourceName :: string
  Success :: bool
  ErrorMessage :: string

record HealthCheckConfig =
  CPUThreshold :: float64
  MemoryThreshold :: float64

text \<open>The idiom \<^verbatim>\<open>if len(name) > 0 && name[0] == '/' { name = name[1:] }\<close>, which the
  source writes out at each use.\<close>

fun stripSlash :: "string \<Rightarrow> string" where
  "stripSlash [] = []"
| "stripSlash (c # rest) = (if c = CHR ''/'' then rest else c # rest)"

subsection \<open>The stats sampler\<close>

definition getContainerStats :: "'d DockerClient \<Rightarrow> 'd \<Rightarrow> string \<Rightarrow> error + ContainerStats" where
  "getContainerStats dockerClient d containerID =
     (case ContainerStats dockerClient d containerID False of
        Inl err \<Rightarrow> Inl err
      | Inr body \<Rightarrow>
          (case body of
             Inl err \<Rightarrow> Inl err
           | Inr statsJSON \<Rightarrow>
               (let cpuPercent = CalculateCPUPercent statsJSON;
                    memoryUsage = Usage (MemoryStats statsJSON);
                    memoryLimit = Limit (MemoryStats statsJSON);
                    memoryPercent =
                      fmul (fdiv (float64_of_uint64 memoryUsage) (float64_of_uint64 memoryLimit))
                        (Finite 100)
                in Inr \<lparr>CPUPercent = cpuPercent,
                        MemoryUsage = memoryUsage,
                        MemoryLimit = memoryLimit,
                        MemoryPercent = memoryPercent,
                        NetworkRx = GetNetworkRx statsJSON,
                        NetworkTx = GetNetworkTx statsJSON,
                        BlockRead = GetBlockRead statsJSON,
                        BlockWrite = GetBlockWrite statsJSON\<rparr>)))"

subsection \<open>The health checker\<close>

text \<open>
  \<^verbatim>\<open>checkContainer\<close> returns nothing; its effect is the row it hands to
  \<^verbatim>\<open>repo.Create\<close> (a failure of which is only printed). The model returns that row,
  \<open>None\<close> when the function returns without one, and the panic of \<^verbatim>\<open>c.Names[0]\<close>
  on a container without names.
\<close>

definition checkContainer ::
  "'d DockerClient \<Rightarrow> 'd \<Rightarrow> Container \<Rightarrow> HealthCheckConfig \<Rightarrow> panic + HealthCheckLog option" where
  "checkContainer dockerClient d c cfg =
     (case Names c of
        [] \<Rightarrow> Inl IndexOutOfRange
      | name0 # _ \<Rightarrow>
          (let containerName = stripSlash name0 in
           case ContainerStats dockerClient d (ID c) False of
             Inl err \<Rightarrow>
               Inr (Some \<lparr>ContainerID = ID c,
                          ContainerName = containerName,
                          Status = ''error'',
                          ResourceCPU = Finite 0,
                          ResourceMemory = 0,
                          ResourceMemoryLimit = 0,
                          ResourceNetworkRx = 0,
                          ResourceNetworkTx = 0,
                          HealthCheckLog.ErrorMessage = errorString err\<rparr>)
           | Inr body \<Rightarrow>
               (case body of
                  Inl err \<Rightarrow> Inr None
                | Inr statsData \<Rightarrow>
                    (let cpuPercent = CalculateCPUPercent statsData;
                         memoryPercent =
                           fmul (fdiv (float64_of_uint64 (Usage (MemoryStats statsData)))
                                   (float64_of_uint64 (Limit (MemoryStats statsData))))
                             (Finite 100);
                         status =
                           (if fgt cpuPercent (CPUThreshold cfg) \<or>
                               fgt memoryPercent (MemoryThreshold cfg)
                            then ''resource_critical'' else ''healthy'')
                     in Inr (Some \<lparr>ContainerID = ID c,
                                   ContainerName = containerName,
                                   Status = status,
                                   ResourceCPU = cpuPercent,
                                   ResourceMemory = Usage (MemoryStats statsData),
                                   ResourceMemoryLimit = Limit (MemoryStats statsData),
                                   ResourceNetworkRx = GetNetworkRx statsData,
                                   ResourceNetworkTx = GetNetworkTx statsData,
                                   HealthCheckLog.ErrorMessage = ''''\<rparr>)))))"

subsection \<open>The log service\<close>

record LogStreamOptions =
  Follow :: bool
  Tail :: string
  Since :: string
  Until :: string
  Timestamps :: bool

text \<open>
  \<^verbatim>\<open>io.ReadFull(reader, buf)\<close> on a stream that holds the bytes \<open>reader\<close> before
  end-of-file, for a buffer of \<open>n\<close> bytes: the bytes read and the rest of the stream, or
  \<^verbatim>\<open>io.EOF\<close> when no byte was read and \<^verbatim>\<open>io.ErrUnexpectedEOF\<close> when some but
  not all were.
\<close>

definition ReadFull :: "byte list \<Rightarrow> nat \<Rightarrow> (error + byte list) \<times> byte list" where
  "ReadFull reader n =
     (if n \<le> length reader then (Inr (take n reader), drop n reader)
      else if reader = [] then (Inl EOF, [])
      else (Inl ErrUnexpectedEOF, []))"

text \<open>The expression
  \<^verbatim>\<open>uint32(header[4])<<24 | uint32(header[5])<<16 | uint32(header[6])<<8 | uint32(header[7])\<close>
  of both loops; the header it is applied to has eight bytes.\<close>

definition decodeSize :: "byte list \<Rightarrow> uint32" where
  "decodeSize header =
     push_bit 24 (ucast (header ! 4)) OR push_bit 16 (ucast (header ! 5)) OR
     push_bit 8 (ucast (header ! 6)) OR ucast (header ! 7)"

text \<open>
  The loop of \<^verbatim>\<open>GetLogs\<close>, on the rest of the stream and the bytes collected so
  far. The buffer \<^verbatim>\<open>buf\<close> is scratch space: a successful \<^verbatim>\<open>ReadFull\<close> fills
  \<^verbatim>\<open>buf[:size]\<close> and returns \<^verbatim>\<open>n = size\<close>, so \<^verbatim>\<open>buf[:n]\<close> is the payload read.
\<close>

function GetLogs_loop :: "byte list \<Rightarrow> byte list \<Rightarrow> error + byte list" where
  "GetLogs_loop reader result =
     (case ReadFull reader 8 of
        (Inl err, _) \<Rightarrow>
          (if err = EOF then Inr result
           else Inl (Wrapped ''failed to read log header'' err))
      | (Inr header, reader') \<Rightarrow>
          (let size = decodeSize header in
           if size = 0 then GetLogs_loop reader' result
           else
             (case ReadFull reader' (unat size) of
                (Inl err, _) \<Rightarrow>
                  (if err = EOF then Inr result
                   else Inl (Wrapped ''failed to read log payload'' err))
              | (Inr payload, reader'') \<Rightarrow> GetLogs_loop reader'' (result @ payload))))"
  by pat_completeness auto
termination
  by (relation "measure (\<lambda>(reader, result). length reader)")
     (auto simp: ReadFull_def split: if_splits)

definition GetLogs ::
  "'d DockerClient \<Rightarrow> 'd \<Rightarrow> string \<Rightarrow> LogStreamOptions \<Rightarrow> error + byte list" where
  "GetLogs dockerClient d containerID opts =
     (let logOpts = \<lparr>ShowStdout = True, ShowStderr = True,
                      LogsOptions.Since = (if Since opts \<noteq> '''' then Since opts else ''''),
                      LogsOptions.Until = (if Until opts \<noteq> '''' then Until opts else ''''),
                      LogsOptions.Timestamps = Timestamps opts,
                      LogsOptions.Follow = False,
                      LogsOptions.Tail = Tail opts\<rparr>
      in case ContainerLogs dockerClient d containerID logOpts of
           Inl err \<Rightarrow> Inl (Wrapped ''failed to get container logs'' err)
         | Inr reader \<Rightarrow> GetLogs_loop reader [])"

text \<open>
  The goroutine of \<^verbatim>\<open>StreamLogs\<close>. \<open>ctxErr i\<close> is what the \<^verbatim>\<open>select\<close> of
  iteration \<open>i\<close> sees: \<open>Some e\<close> when the context is done with \<^verbatim>\<open>ctx.Err() = e\<close>.
  \<open>writeErr k p\<close> is the outcome of \<^verbatim>\<open>writer.Write(p)\<close> after \<open>k\<close> earlier writes.
  The result is what the error channel delivers (\<open>None\<close> when it is closed empty) and the
  chunks written. The result of \<^verbatim>\<open>Flush\<close> is discarded by the source.
\<close>

function StreamLogs_loop ::
  "(nat \<Rightarrow> error option) \<Rightarrow> (nat \<Rightarrow> byte list \<Rightarrow> error option) \<Rightarrow>
   byte list \<Rightarrow> nat \<Rightarrow> byte list list \<Rightarrow> error option \<times> byte list list" where
  "StreamLogs_loop ctxErr writeErr reader i written =
     (case ctxErr i of
        Some e \<Rightarrow> (Some e, written)
      | None \<Rightarrow>
          (case ReadFull reader 8 of
             (Inl err, _) \<Rightarrow>
               (if err = EOF then (None, written)
                else (Some (Wrapped ''failed to read log header'' err), written))
           | (Inr header, reader') \<Rightarrow>
               (let size = decodeSize header in
                if size = 0 then StreamLogs_loop ctxErr writeErr reader' (Suc i) written
                else
                  (case ReadFull reader' (unat size) of
                     (Inl err, _) \<Rightarrow>
                       (if err = EOF then (None, written)
                        else (Some (Wrapped ''failed to read log payload'' err), written))
                   | (Inr payload, reader'') \<Rightarrow>
                       (case writeErr (length written) payload of
                          Some err \<Rightarrow> (Some (Wrapped ''failed to write log data'' err), written)
                        | None \<Rightarrow>
                            StreamLogs_loop ctxErr writeErr reader'' (Suc i)
                              (written @ [payload]))))))"
  by pat_completeness auto
termination
  by (relation "measure (\<lambda>(ctxErr, writeErr, reader, i, written). length reader)")
     (auto simp: ReadFull_def split: if_splits)

definition StreamLogs ::
  "'d DockerClient \<Rightarrow> 'd \<Rightarrow> (nat \<Rightarrow> error option) \<Rightarrow> string \<Rightarrow> LogStreamOptions \<Rightarrow>
   (nat \<Rightarrow> byte list \<Rightarrow> error option) \<Rightarrow> error + (error option \<times> byte list list)" where
  "StreamLogs dockerClient d ctxErr containerID opts writeErr =
     (let logOpts = \<lparr>ShowStdout = True, ShowStderr = True,
                      LogsOptions.Since = (if Since opts \<noteq> '''' then Since opts else ''''),
                      LogsOptions.Until = (if Until opts \<noteq> '''' then Until opts else ''''),
                      LogsOptions.Timestamps = Timestamps opts,
                      LogsOptions.Follow = Follow opts,
                      LogsOptions.Tail = Tail opts\<rparr>
      in case ContainerLogs dockerClient d containerID logOpts of
           Inl err \<Rightarrow> Inl (Wrapped ''failed to get container logs'' err)
         | Inr reader \<Rightarrow> Inr (StreamLogs_loop ctxErr writeErr reader 0 []))"

text \<open>
  \<^verbatim>\<open>CreateLogArchive\<close>. \<open>timestamp\<close> is \<^verbatim>\<open>time.Now().Format("20060102-150405")\<close>;
  \<open>zipCreate\<close> and \<open>zipWrite\<close> are the outcomes of creating the archive entry and of
  writing to it. The result is the archive: its entries, each a name and its content.
\<close>

definition CreateLogArchive ::
  "'d DockerClient \<Rightarrow> 'd \<Rightarrow> string \<Rightarrow> string \<Rightarrow> (string \<Rightarrow> error option) \<Rightarrow>
   (byte list \<Rightarrow> error option) \<Rightarrow> error + (string \<times> byte list) list" where
  "CreateLogArchive dockerClient d containerID timestamp zipCreate zipWrite =
     (case ContainerInspect dockerClient d containerID of
        Inl err \<Rightarrow> Inl (Wrapped ''failed to inspect container'' err)
      | Inr containerJSON \<Rightarrow>
          (case GetLogs dockerClient d containerID
                  \<lparr>Follow = False, Tail = ''all'', Since = '''', Until = '''', Timestamps = True\<rparr> of
             Inl err \<Rightarrow> Inl (Wrapped ''failed to get logs'' err)
           | Inr logs \<Rightarrow>
               (let containerName = stripSlash (Name containerJSON);
                    filename = containerName @ ''_'' @ timestamp @ ''.log''
                in case zipCreate filename of
                     Some err \<Rightarrow> Inl (Wrapped ''failed to create zip entry'' err)
                   | None \<Rightarrow>
                       (case zipWrite logs of
                          Some err \<Rightarrow> Inl (Wrapped ''failed to write logs to zip'' err)
                        | None \<Rightarrow> Inr [(filename, logs)]))))"

text \<open>
  The handler \<^verbatim>\<open>DownloadLogs\<close> of \<^verbatim>\<open>handler/logs.go\<close>, given the request's query
  parameters and its \<^verbatim>\<open>:id\<close> path parameter. \<^verbatim>\<open>containerID[:12]\<close> panics on an id
  shorter than twelve bytes.
\<close>

datatype DownloadResponse =
    DownloadBadRequest string
  | DownloadPanic panic
  | DownloadError string string
  | DownloadZip string "(string \<times> byte list) list"

definition DownloadLogs ::
  "'d DockerClient \<Rightarrow> 'd \<Rightarrow> (string \<rightharpoonup> string) \<Rightarrow> string \<Rightarrow> string \<Rightarrow>
   (string \<Rightarrow> error option) \<Rightarrow> (byte list \<Rightarrow> error option) \<Rightarrow> DownloadResponse" where
  "DownloadLogs dockerClient d query containerID timestamp zipCreate zipWrite =
     (if containerID = '''' then DownloadBadRequest ''Container ID is required''
      else if length containerID < 12 then DownloadPanic SliceBoundsOutOfRange
      else
        (case CreateLogArchive dockerClient d containerID timestamp zipCreate zipWrite of
           Inl err \<Rightarrow> DownloadError ''Failed to create log archive'' (errorString err)
         | Inr archive \<Rightarrow>
             DownloadZip (''attachment; filename=container-'' @ take 12 containerID @ ''-logs.zip'')
               archive))"

text \<open>The wire format of the daemon's multiplexed stream, as the comment in
  \<^verbatim>\<open>StreamLogs\<close> gives it: a header
  \<^verbatim>\<open>[STREAM_TYPE, 0, 0, 0, SIZE1, SIZE2, SIZE3, SIZE4]\<close> (the size big-endian), then the
  payload. A frame is its stream type and its payload.\<close>

definition encodeHeader :: "byte \<Rightarrow> uint32 \<Rightarrow> byte list" where
  "encodeHeader streamType n =
     [streamType, 0, 0, 0,
      ucast (drop_bit 24 n), ucast (drop_bit 16 n), ucast (drop_bit 8 n), ucast n]"

definition encodeFrame :: "byte \<times> byte list \<Rightarrow> byte list" where
  "encodeFrame f = encodeHeader (fst f) (word_of_nat (length (snd f))) @ snd f"

definition encodeFrames :: "(byte \<times> byte list) list \<Rightarrow> byte list" where
  "encodeFrames frames = concat (map encodeFrame frames)"

subsection \<open>Mutating container operations and the action journal\<close>

text \<open>
  The action journal behind \<^verbatim>\<open>ActionLogRepository\<close>, over a state \<open>'j\<close> of the
  database: \<^verbatim>\<open>Create\<close> may fail and leaves a state. The state of the world a
  mutating operation runs in is the pair of the daemon's state and the journal's.
  Lines printed with \<^verbatim>\<open>log.Printf\<close> are not part of the model.
\<close>

record 'j ActionLogRepository =
  Create :: "'j \<Rightarrow> ActionLog \<Rightarrow> error option \<times> 'j"

definition logAction ::
  "'j ActionLogRepository \<Rightarrow> string \<Rightarrow> string \<Rightarrow> string \<Rightarrow> string \<Rightarrow> bool \<Rightarrow> error option \<Rightarrow>
   'd \<times> 'j \<Rightarrow> error option \<times> ('d \<times> 'j)" where
  "logAction actionLogRepo actionType resourceType resourceID resourceName success err w =
     (let actionLog = \<lparr>ActionType = actionType,
                        ResourceType = resourceType,
                        ResourceID = resourceID,
                        ResourceName = resourceName,
                        Success = success,
                        ErrorMessage = (case err of None \<Rightarrow> '''' | Some e \<Rightarrow> errorString e)\<rparr>;
          (logErr, j') = Create actionLogRepo (snd w) actionLog
      in (err, (fst w, j')))"

definition StartContainer ::
  "'d DockerClient \<Rightarrow> 'j ActionLogRepository \<Rightarrow> string \<Rightarrow> 'd \<times> 'j \<Rightarrow> error option \<times> ('d \<times> 'j)" where
  "StartContainer dockerClient actionLogRepo containerID w =
     (case ContainerInspect dockerClient (fst w) containerID of
        Inl err \<Rightarrow> logAction actionLogRepo ''start'' ''container'' containerID '''' False (Some err) w
      | Inr containerJSON \<Rightarrow>
          (case ContainerStart dockerClient (fst w) containerID of
             (Some err, d') \<Rightarrow>
               logAction actionLogRepo ''start'' ''container'' containerID (Name containerJSON)
                 False (Some err) (d', snd w)
           | (None, d') \<Rightarrow>
               logAction actionLogRepo ''start'' ''container'' containerID (Name containerJSON)
                 True None (d', snd w)))"

definition StopContainer ::
  "'d DockerClient \<Rightarrow> 'j ActionLogRepository \<Rightarrow> string \<Rightarrow> 'd \<times> 'j \<Rightarrow> error option \<times> ('d \<times> 'j)" where
  "StopContainer dockerClient actionLogRepo containerID w =
     (case ContainerInspect dockerClient (fst w) containerID of
        Inl err \<Rightarrow> logAction actionLogRepo ''stop'' ''container'' containerID '''' False (Some err) w
      | Inr containerJSON \<Rightarrow>
          (case ContainerStop dockerClient (fst w) containerID of
             (Some err, d') \<Rightarrow>
               logAction actionLogRepo ''stop'' ''container'' containerID (Name containerJSON)
                 False (Some err) (d', snd w)
           | (None, d') \<Rightarrow>
               logAction actionLogRepo ''stop'' ''container'' containerID (Name containerJSON)
                 True None (d', snd w)))"

definition RestartContainer ::
  "'d DockerClient \<Rightarrow> 'j ActionLogRepository \<Rightarrow> string \<Rightarrow> 'd \<times> 'j \<Rightarrow> error option \<times> ('d \<times> 'j)" where
  "RestartContainer dockerClient actionLogRepo containerID w =
     (case ContainerInspect dockerClient (fst w) containerID of
        Inl err \<Rightarrow> logAction actionLogRepo ''restart'' ''container'' containerID '''' False (Some err) w
      | Inr containerJSON \<Rightarrow>
          (case ContainerRestart dockerClient (fst w) containerID of
             (Some err, d') \<Rightarrow>
               logAction actionLogRepo ''restart'' ''container'' containerID (Name containerJSON)
                 False (Some err) (d', snd w)
           | (None, d') \<Rightarrow>
               logAction actionLogRepo ''restart'' ''container'' containerID (Name containerJSON)
                 True None (d', snd w)))"

definition RemoveContainer ::
  "'d DockerClient \<Rightarrow> 'j ActionLogRepository \<Rightarrow> string \<Rightarrow> bool \<Rightarrow> 'd \<times> 'j \<Rightarrow>
   error option \<times> ('d \<times> 'j)" where
  "RemoveContainer dockerClient actionLogRepo containerID force w =
     (case ContainerInspect dockerClient (fst w) containerID of
        Inl err \<Rightarrow> logAction actionLogRepo ''remove'' ''container'' containerID '''' False (Some err) w
      | Inr containerJSON \<Rightarrow>
          (case ContainerRemove dockerClient (fst w) containerID force of
             (Some err, d') \<Rightarrow>
               logAction actionLogRepo ''remove'' ''container'' containerID (Name containerJSON)
                 False (Some err) (d', snd w)
           | (None, d') \<Rightarrow>
               logAction actionLogRepo ''remove'' ''container'' containerID (Name containerJSON)
                 True None (d', snd w)))"

subsection \<open>Bulk operations\<close>

record BulkOperationResult =
  ContainerID :: string
  ContainerName :: string
  Success :: bool
  Error :: string
















subsection \<open>The stats cache\<close>

record StatsCache =
  containerStats :: "string \<rightharpoonup> ContainerStats"
  dashboardSummary :: "DashboardSummary option"

text \<open>The value a goroutine of \<^verbatim>\<open>refresh\<close> sends on the channel.\<close>

record statsResult =
  res_containerID :: string
  res_stats :: "ContainerStats option"
  res_err :: "error option"

text \<open>\<^verbatim>\<open>DashboardSummary{}\<close>, the zero value.\<close>

definition zeroSummary :: DashboardSummary where
  "zeroSummary =
     \<lparr>TotalCPUPercent = Finite 0, TotalMemoryUsage = 0, TotalMemoryLimit = 0,
      TotalMemoryPercent = Finite 0, TotalNetworkRx = 0, TotalNetworkTx = 0,
      ContainerCount = 0\<rparr>"

definition NewStatsCache :: StatsCache where
  "NewStatsCache = \<lparr>containerStats = Map.empty, dashboardSummary = None\<rparr>"

definition GetAllContainerStats :: "StatsCache \<Rightarrow> (string \<rightharpoonup> ContainerStats)" where
  "GetAllContainerStats c = containerStats c"

definition GetDashboardSummary :: "StatsCache \<Rightarrow> DashboardSummary" where
  "GetDashboardSummary c =
     (case dashboardSummary c of None \<Rightarrow> zeroSummary | Some summary \<Rightarrow> summary)"

text \<open>The body of the goroutine \<^verbatim>\<open>refresh\<close> starts for one container.\<close>

definition sampleTask :: "'d DockerClient \<Rightarrow> 'd \<Rightarrow> string \<Rightarrow> statsResult" where
  "sampleTask dockerClient d containerID =
     (case getContainerStats dockerClient d containerID of
        Inl e \<Rightarrow> \<lparr>res_containerID = containerID, res_stats = None, res_err = Some e\<rparr>
      | Inr s \<Rightarrow> \<lparr>res_containerID = containerID, res_stats = Some s, res_err = None\<rparr>)"

text \<open>The loop \<^verbatim>\<open>for result := range statsChan\<close>, over the results in the order the
  channel delivers them.\<close>

fun refresh_collect ::
  "(real \<Rightarrow> float64) \<Rightarrow> statsResult list \<Rightarrow> (string \<rightharpoonup> ContainerStats) \<times> DashboardSummary \<Rightarrow>
   (string \<rightharpoonup> ContainerStats) \<times> DashboardSummary" where
  "refresh_collect rnd [] (newStats, summary) = (newStats, summary)"
| "refresh_collect rnd (result # rest) (newStats, summary) =
     (if res_err result \<noteq> None then refresh_collect rnd rest (newStats, summary)
      else
        (case res_stats result of
           None \<Rightarrow> refresh_collect rnd rest (newStats, summary)
         | Some s \<Rightarrow>
             refresh_collect rnd rest
               (newStats(res_containerID result \<mapsto> s),
                summary\<lparr>TotalCPUPercent := fadd rnd (TotalCPUPercent summary) (CPUPercent s),
                        TotalMemoryUsage := TotalMemoryUsage summary + MemoryUsage s,
                        TotalMemoryLimit := TotalMemoryLimit summary + MemoryLimit s,
                        TotalNetworkRx := TotalNetworkRx summary + NetworkRx s,
                        TotalNetworkTx := TotalNetworkTx summary + NetworkTx s,
                        ContainerCount := ContainerCount summary + 1\<rparr>)))"

text \<open>The step after the loop: the fleet's memory percentage.\<close>

definition refresh_finish :: "DashboardSummary \<Rightarrow> DashboardSummary" where
  "refresh_finish summary =
     (if 0 < TotalMemoryLimit summary
      then summary\<lparr>TotalMemoryPercent :=
             fmul (fdiv (float64_of_uint64 (TotalMemoryUsage summary))
                        (float64_of_uint64 (TotalMemoryLimit summary)))
                  (Finite 100)\<rparr>
      else summary)"

text \<open>
  One call of \<^verbatim>\<open>refresh\<close>, as a relation between the cache before and after. The
  goroutines run concurrently, so the channel delivers their results in any order:
  \<open>arrived\<close> is any arrangement of the results of the containers listed. Every goroutine
  sends a result; a sampler cut off by the five-second deadline is one whose daemon call
  returned an error. \<open>rnd\<close> is the rounding of \<^verbatim>\<open>float64\<close> addition.
\<close>

inductive refresh ::
  "(real \<Rightarrow> float64) \<Rightarrow> 'd DockerClient \<Rightarrow> 'd \<Rightarrow> StatsCache \<Rightarrow> StatsCache \<Rightarrow> bool"
  for rnd :: "real \<Rightarrow> float64" and dockerClient :: "'d DockerClient" and d :: 'd where
  refresh_list_failed:
    "ContainerList dockerClient d False = Inl e \<Longrightarrow> refresh rnd dockerClient d c c"
| refresh_no_containers:
    "ContainerList dockerClient d False = Inr [] \<Longrightarrow>
     refresh rnd dockerClient d c \<lparr>containerStats = Map.empty, dashboardSummary = Some zeroSummary\<rparr>"
| refresh_publish:
    "ContainerList dockerClient d False = Inr containers \<Longrightarrow> containers \<noteq> [] \<Longrightarrow>
     mset arrived = mset (map (\<lambda>c. sampleTask dockerClient d (ID c)) containers) \<Longrightarrow>
     refresh_collect rnd arrived (Map.empty, zeroSummary) = (newStats, summary) \<Longrightarrow>
     refresh rnd dockerClient d c
       \<lparr>containerStats = newStats, dashboardSummary = Some (refresh_finish summary)\<rparr>"

text \<open>The sum of a list of \<^verbatim>\<open>float64\<close> values, added from the left starting at 0
  with the rounding \<open>rnd\<close>: the accumulation \<^verbatim>\<open>total += x\<close> over the list in its order.\<close>

definition fsum :: "(real \<Rightarrow> float64) \<Rightarrow> float64 list \<Rightarrow> float64" where
  "fsum rnd xs = foldl (fadd rnd) (Finite 0) xs"

subsection \<open>Concrete inputs\<close>

text \<open>A stats response with the given CPU totals (previous and current), the number of
  CPUs, the memory usage and limit, and the block-io entries.\<close>

definition sample ::
  "uint64 \<Rightarrow> uint64 \<Rightarrow> uint64 \<Rightarrow> uint64 \<Rightarrow> nat \<Rightarrow> uint64 \<Rightarrow> uint64 \<Rightarrow> BlkioStatEntry list \<Rightarrow>
   StatsResponse" where
  "sample cpu_total_prev cpu_total system_prev system cpu_count mem_used mem_limit blkio =
     \<lparr>CPUStats = \<lparr>CPUUsage = \<lparr>TotalUsage = cpu_total, PercpuUsage = replicate cpu_count 0\<rparr>,
                   SystemUsage = system\<rparr>,
      PreCPUStats = \<lparr>CPUUsage = \<lparr>TotalUsage = cpu_total_prev,
                                  PercpuUsage = replicate cpu_count 0\<rparr>,
                      SystemUsage = system_prev\<rparr>,
      MemoryStats = \<lparr>Usage = mem_used, Limit = mem_limit\<rparr>,
      BlkioStats = \<lparr>IoServiceBytesRecursive = blkio\<rparr>,
      Networks = []\<rparr>"

text \<open>A daemon without state of its own: it lists the given containers, answers a stats
  and a logs request as the given functions say, and fails a mutating call on an id as
  \<open>opErr\<close> says.\<close>

definition stubClient ::
  "Container list \<Rightarrow> (string \<Rightarrow> error + Body) \<Rightarrow> (string \<Rightarrow> LogsOptions \<Rightarrow> error + byte list) \<Rightarrow>
   (string \<Rightarrow> error option) \<Rightarrow> unit DockerClient" where
  "stubClient containers statsOf logsOf opErr =
     \<lparr>ContainerList = (\<lambda>d all. Inr containers),
      ContainerInspect = (\<lambda>d containerID.
        (case find (\<lambda>c. ID c = containerID) containers of
           None \<Rightarrow> Inl (OtherError ''No such container'')
         | Some c \<Rightarrow> Inr \<lparr>Name = concat (take 1 (Names c))\<rparr>)),
      ContainerStats = (\<lambda>d containerID stream. statsOf containerID),
      ContainerLogs = (\<lambda>d containerID opts. logsOf containerID opts),
      ContainerStart = (\<lambda>d containerID. (opErr containerID, d)),
      ContainerStop = (\<lambda>d containerID. (opErr containerID, d)),
      ContainerRestart = (\<lambda>d containerID. (opErr containerID, d)),
      ContainerRemove = (\<lambda>d containerID force. (opErr containerID, d))\<rparr>"


definition brokenJournal :: "(ActionLog list) ActionLogRepository" where
  "brokenJournal = \<lparr>Create = (\<lambda>j actionLog. (Some (OtherError ''database is locked''), j))\<rparr>"


text \<open>The daemon of scenario S4: three containers \<open>a\<close>, \<open>b\<close>, \<open>c\<close>; a mutating call on
  \<open>b\<close> fails with \<^verbatim>\<open>conflict\<close>.\<close>

definition s4Client :: "unit DockerClient" where
  "s4Client =
     stubClient [\<lparr>ID = ''a'', Names = [''/alpha'']\<rparr>, \<lparr>ID = ''b'', Names = [''/beta'']\<rparr>,
                 \<lparr>ID = ''c'', Names = [''/gamma'']\<rparr>]
       (\<lambda>i. Inl (OtherError ''unavailable'')) (\<lambda>i opts. Inl (OtherError ''unavailable''))
       (\<lambda>i. if i = ''b'' then Some (OtherError ''conflict'') else None)"

text \<open>The bytes of an ASCII string.\<close>

definition bytesOf :: "string \<Rightarrow> byte list" where
  "bytesOf s = map of_char s"

text \<open>A daemon that answers every logs request with the given stream, and the options
  of a request for the last hundred lines.\<close>

definition logsClient :: "byte list \<Rightarrow> unit DockerClient" where
  "logsClient stream =
     stubClient [] (\<lambda>i. Inl (OtherError ''unavailable'')) (\<lambda>i opts. Inr stream) (\<lambda>i. None)"

definition tailOpts :: LogStreamOptions where
  "tailOpts = \<lparr>Follow = False, Tail = ''100'', Since = '''', Until = '''', Timestamps = False\<rparr>"

text \<open>A daemon with one container, \<open>web\<close>, whose log stream depends on the options of
  the request: the last line without timestamps for \<^verbatim>\<open>tail=10\<close>, both lines with
  timestamps for \<^verbatim>\<open>tail=all\<close>.\<close>

definition optionClient :: "unit DockerClient" where
  "optionClient =
     stubClient [\<lparr>ID = ''0123456789abcdef'', Names = [''/web'']\<rparr>]
       (\<lambda>i. Inl (OtherError ''unavailable''))
       (\<lambda>i logOpts.
          if LogsOptions.Tail logOpts = ''10'' \<and> \<not> LogsOptions.Timestamps logOpts
          then Inr (encodeFrames [(1, bytesOf ''last line'')])
          else if LogsOptions.Tail logOpts = ''all'' \<and> LogsOptions.Timestamps logOpts
          then Inr (encodeFrames [(1, bytesOf ''2024 first line''), (1, bytesOf ''2024 last line'')])
          else Inl (OtherError ''unexpected options''))
       (\<lambda>i. None)"

text \<open>The entries a run of the collecting loop stores, in order: the id and the stats
  of every result that carries no error and some stats.\<close>

definition delivered :: "statsResult list \<Rightarrow> (string \<times> ContainerStats) list" where
  "delivered rs =
     map (\<lambda>r. (res_containerID r, the (res_stats r)))
       (filter (\<lambda>r. res_err r = None \<and> res_stats r \<noteq> None) rs)"

text \<open>The rounding that leaves every real as it is. On the sums of the input below, 5
  and 25, binary64's rounding does the same.\<close>

definition noRounding :: "real \<Rightarrow> float64" where
  "noRounding x = Finite x"

text \<open>A daemon with three running containers: the samples of \<open>a\<close> and \<open>c\<close> succeed
  (CPU 20 and 5 percent), the sampler of \<open>b\<close> runs into the deadline. The results arrive
  in the order \<open>c\<close>, \<open>b\<close>, \<open>a\<close>; \<open>snapshotOf\<close> is the cache \<^verbatim>\<open>refresh\<close> publishes
  for results arriving in a given order.\<close>

definition fleetClient :: "unit DockerClient" where
  "fleetClient =
     stubClient [\<lparr>ID = ''a'', Names = [''/alpha'']\<rparr>, \<lparr>ID = ''b'', Names = [''/beta'']\<rparr>,
                 \<lparr>ID = ''c'', Names = [''/gamma'']\<rparr>]
       (\<lambda>i. if i = ''a'' then Inr (Inr (sample 100 200 1000 2000 2 512 1024 []))
            else if i = ''c'' then Inr (Inr (sample 0 50 1000 2000 1 1 4 []))
            else Inl (OtherError ''context deadline exceeded''))
       (\<lambda>i opts. Inl (OtherError ''unavailable'')) (\<lambda>i. None)"

definition fleetArrived :: "statsResult list" where
  "fleetArrived =
     [sampleTask fleetClient () ''c'', sampleTask fleetClient () ''b'',
      sampleTask fleetClient () ''a'']"

definition snapshotOf :: "(real \<Rightarrow> float64) \<Rightarrow> statsResult list \<Rightarrow> StatsCache" where
  "snapshotOf rnd arrived =
     (case refresh_collect rnd arrived (Map.empty, zeroSummary) of
        (newStats, summary) \<Rightarrow>
          \<lparr>containerStats = newStats, dashboardSummary = Some (refresh_finish summary)\<rparr>)"

section \<open>Theorems\<close>

subsection \<open>Stats sampler and health probe\<close>

text \<open>
  What holds of the two percentages: on totals that did not decrease, the CPU percentage
  is the quotient of the deltas times the number of CPUs times 100 when both deltas are
  positive and 0 otherwise (20 in scenario S1); on a memory limit other than 0, the
  memory percentage is usage over limit times 100.
\<close>

lemma cpu_percent_S1: "CalculateCPUPercent (sample 100 200 1000 2000 2 0 0 []) = Finite 20"
  by (simp add: CalculateCPUPercent_def sample_def float64_of_uint64_def float64_of_nat_def)

lemma float64_of_uint64_diff:
  "b \<le> a \<Longrightarrow> float64_of_uint64 (a - b) = Finite (real (unat a) - real (unat b))"
proof -
  assume le: "b \<le> a"
  then have "unat b \<le> unat a" by (simp add: word_le_nat_alt)
  moreover from le have "unat (a - b) = unat a - unat b" by (rule unat_sub)
  ultimately show ?thesis
    by (simp only: float64_of_uint64_def float64_of_nat_def of_nat_diff)
qed

lemma cpu_percent_no_wrap:
  assumes "TotalUsage (CPUUsage (PreCPUStats stats)) \<le> TotalUsage (CPUUsage (CPUStats stats))"
    and "SystemUsage (PreCPUStats stats) \<le> SystemUsage (CPUStats stats)"
  shows "CalculateCPUPercent stats =
           (let cpuDelta = real (unat (TotalUsage (CPUUsage (CPUStats stats)))) -
                           real (unat (TotalUsage (CPUUsage (PreCPUStats stats))));
                systemDelta = real (unat (SystemUsage (CPUStats stats))) -
                              real (unat (SystemUsage (PreCPUStats stats)))
            in if 0 < systemDelta \<and> 0 < cpuDelta
               then Finite (cpuDelta / systemDelta *
                            real (length (PercpuUsage (CPUUsage (CPUStats stats)))) * 100)
               else Finite 0)"
  unfolding CalculateCPUPercent_def float64_of_uint64_diff [OF assms(1)]
    float64_of_uint64_diff [OF assms(2)]
  by (simp add: Let_def float64_of_nat_def)

lemma mem_percent_positive_limit:
  assumes "getContainerStats dockerClient d containerID = Inr sampled"
    and "MemoryLimit sampled \<noteq> 0"
  shows "MemoryPercent sampled =
           Finite (real (unat (MemoryUsage sampled)) / real (unat (MemoryLimit sampled)) * 100)"
proof -
  from assms(2) have "unat (MemoryLimit sampled) \<noteq> 0" by (simp add: unat_eq_0)
  then have nz: "real (unat (MemoryLimit sampled)) \<noteq> 0" by (simp only: of_nat_eq_0_iff not_False_eq_True)
  from assms(1) have "MemoryPercent sampled =
      fmul (fdiv (Finite (real (unat (MemoryUsage sampled))))
                 (Finite (real (unat (MemoryLimit sampled))))) (Finite 100)"
    by (auto simp only: getContainerStats_def Let_def float64_of_uint64_def float64_of_nat_def
        split: sum.splits) simp
  with nz show ?thesis by (simp only: fdiv.simps fmul.simps if_False)
qed

text \<open>
  Claim C1 says that a sample whose memory limit is 0 has memory percentage 0, the
  division being guarded. Neither \<^verbatim>\<open>getContainerStats\<close> nor \<^verbatim>\<open>checkContainer\<close>
  guards it (the cache's \<^verbatim>\<open>refresh\<close> does, for the fleet's percentage). At a limit of 0
  the sampler's memory percentage is +Inf for a usage of 5 and NaN for a usage of 0, and
  the health probe, with both thresholds at 90 and an idle CPU, classifies the container
  with usage 5 as \<^verbatim>\<open>resource_critical\<close>.
\<close>

theorem mem_limit_zero_unguarded:
  "map_sum id MemoryPercent
     (getContainerStats
        (stubClient [] (\<lambda>i. Inr (Inr (sample 100 100 1000 2000 2 5 0 []))) (\<lambda>i opts. Inr []) (\<lambda>i. None))
        () ''c1'') = Inr PosInf \<and>
   map_sum id MemoryPercent
     (getContainerStats
        (stubClient [] (\<lambda>i. Inr (Inr (sample 100 100 1000 2000 2 0 0 []))) (\<lambda>i opts. Inr []) (\<lambda>i. None))
        () ''c1'') = Inr NaN \<and>
   map_sum id (map_option Status)
     (checkContainer
        (stubClient [] (\<lambda>i. Inr (Inr (sample 100 100 1000 2000 2 5 0 []))) (\<lambda>i opts. Inr []) (\<lambda>i. None))
        () \<lparr>ID = ''c1'', Names = [''/web'']\<rparr>
        \<lparr>CPUThreshold = Finite 90, MemoryThreshold = Finite 90\<rparr>) = Inr (Some ''resource_critical'')"
  by (simp add: getContainerStats_def checkContainer_def stubClient_def CalculateCPUPercent_def
      sample_def float64_of_uint64_def float64_of_nat_def)

text \<open>
  Claim C2 says that the CPU percentage is 0 whenever \<open>cpu_total - cpu_total_prev \<le> 0\<close>.
  The code subtracts in \<^verbatim>\<open>uint64\<close> before converting to \<^verbatim>\<open>float64\<close>, so a current
  total below the previous one wraps to a large positive delta: for
  \<open>cpu_total_prev = 200\<close>, \<open>cpu_total = 100\<close>, \<open>system_prev = 1000\<close>, \<open>system = 2000\<close> and
  two CPUs the result is not 0 but above \<open>3.6 \<sqdot> 10\<^sup>1\<^sup>8\<close>.
\<close>

theorem cpu_percent_wraps_on_negative_delta:
  "CalculateCPUPercent (sample 200 100 1000 2000 2 0 0 []) \<noteq> Finite 0 \<and>
   fgt (CalculateCPUPercent (sample 200 100 1000 2000 2 0 0 [])) (Finite 3600000000000000000)"
  by (simp add: CalculateCPUPercent_def sample_def float64_of_uint64_def float64_of_nat_def)

text \<open>
  Claim C7, as stated, fails: with both thresholds at 0, a sample with CPU percentage 0
  and memory percentage 0 (no CPU delta, usage 0 of a limit of 1024) is classified
  \<^verbatim>\<open>healthy\<close>, since the comparison is strict.
\<close>

theorem zero_thresholds_idle_container_healthy:
  "map_sum id (map_option Status)
     (checkContainer
        (stubClient [] (\<lambda>i. Inr (Inr (sample 100 100 1000 2000 2 0 1024 []))) (\<lambda>i opts. Inr []) (\<lambda>i. None))
        () \<lparr>ID = ''c1'', Names = [''/web'']\<rparr>
        \<lparr>CPUThreshold = Finite 0, MemoryThreshold = Finite 0\<rparr>) = Inr (Some ''healthy'')"
  by (simp add: checkContainer_def stubClient_def CalculateCPUPercent_def
      sample_def float64_of_uint64_def float64_of_nat_def)

text \<open>
  Claim C7, amended: with both thresholds at 0, the health probe classifies a container
  it samples successfully as \<^verbatim>\<open>resource_critical\<close> exactly when the CPU percentage
  or the memory percentage of the sample is above 0, and as \<^verbatim>\<open>healthy\<close> otherwise
  (so a sample whose two percentages are 0 is healthy). The percentages are those the
  stats sampler derives from the same response.
\<close>

theorem zero_thresholds_classification:
  assumes "CPUThreshold cfg = Finite 0" and "MemoryThreshold cfg = Finite 0"
    and "getContainerStats dockerClient d (ID c) = Inr sampled"
    and "checkContainer dockerClient d c cfg = Inr (Some row)"
  shows "Status row =
           (if fgt (CPUPercent sampled) (Finite 0) \<or> fgt (MemoryPercent sampled) (Finite 0)
            then ''resource_critical'' else ''healthy'')"
  using assms
  by (auto simp: checkContainer_def getContainerStats_def Let_def
      split: list.splits sum.splits)

theorem zero_thresholds_classification_witness:
  "\<exists>row sampled.
     getContainerStats
       (stubClient [] (\<lambda>i. Inr (Inr (sample 100 100 1000 2000 2 1 1024 []))) (\<lambda>i opts. Inr []) (\<lambda>i. None))
       () ''c1'' = Inr sampled \<and>
     checkContainer
       (stubClient [] (\<lambda>i. Inr (Inr (sample 100 100 1000 2000 2 1 1024 []))) (\<lambda>i opts. Inr []) (\<lambda>i. None))
       () \<lparr>ID = ''c1'', Names = [''/web'']\<rparr> \<lparr>CPUThreshold = Finite 0, MemoryThreshold = Finite 0\<rparr>
       = Inr (Some row) \<and>
     CPUPercent sampled = Finite 0 \<and> MemoryPercent sampled = Finite (100 / 1024) \<and>
     Status row = ''resource_critical''"
proof -
  let ?dc = "stubClient [] (\<lambda>i. Inr (Inr (sample 100 100 1000 2000 2 1 1024 []))) (\<lambda>i opts. Inr [])
               (\<lambda>i. None)"
  let ?c = "\<lparr>ID = ''c1'', Names = [''/web'']\<rparr>"
  let ?cfg = "\<lparr>CPUThreshold = Finite 0, MemoryThreshold = Finite 0\<rparr>"
  let ?row = "\<lparr>HealthCheckLog.ContainerID = ''c1'', HealthCheckLog.ContainerName = ''web'',
           Status = ''resource_critical'',
           ResourceCPU = Finite 0, ResourceMemory = 1, ResourceMemoryLimit = 1024,
           ResourceNetworkRx = 0, ResourceNetworkTx = 0, HealthCheckLog.ErrorMessage = ''''\<rparr>"
  let ?st = "\<lparr>CPUPercent = Finite 0, MemoryUsage = 1, MemoryLimit = 1024,
          MemoryPercent = Finite (100 / 1024), NetworkRx = 0, NetworkTx = 0, BlockRead = 0,
          BlockWrite = 0\<rparr>"
  have s: "getContainerStats ?dc () (ID ?c) = Inr ?st"
    by (simp add: getContainerStats_def stubClient_def CalculateCPUPercent_def GetNetworkRx_def
        GetNetworkTx_def GetBlockRead_def GetBlockWrite_def sample_def float64_of_uint64_def
        float64_of_nat_def)
  have r: "checkContainer ?dc () ?c ?cfg = Inr (Some ?row)"
    by (simp add: checkContainer_def stubClient_def CalculateCPUPercent_def GetNetworkRx_def
        GetNetworkTx_def sample_def float64_of_uint64_def float64_of_nat_def)
  have "Status ?row = ''resource_critical''"
    using zero_thresholds_classification [of ?cfg ?dc "()" ?c ?st ?row, OF _ _ s r]
    by simp
  with s r show ?thesis by (intro exI [of _ ?row] exI [of _ ?st]) simp
qed

subsection \<open>Block-io totals\<close>

lemma GetBlockRead_loop_sum:
  "GetBlockRead_loop es total' =
     total' + sum_list (map Value (filter (\<lambda>e. Op e = ''Read'' \<or> Op e = ''read'') es))"
  by (induction es arbitrary: total') (simp_all add: add.assoc)

lemma GetBlockWrite_loop_sum:
  "GetBlockWrite_loop es total' =
     total' + sum_list (map Value (filter (\<lambda>e. Op e = ''Write'' \<or> Op e = ''write'') es))"
  by (induction es arbitrary: total') (simp_all add: add.assoc)

text \<open>
  Claim C9, as stated, fails: an entry whose operation is \<^verbatim>\<open>READ\<close> matches
  \<^verbatim>\<open>read\<close> case-insensitively, yet \<^verbatim>\<open>GetBlockRead\<close> does not count it.
\<close>

theorem block_read_ignores_upper_case:
  "spec_block_total ''read'' (sample 0 0 0 0 1 0 0 [\<lparr>Op = ''READ'', Value = 5\<rparr>]) = 5 \<and>
   GetBlockRead (sample 0 0 0 0 1 0 0 [\<lparr>Op = ''READ'', Value = 5\<rparr>]) = 0"
  by code_simp

text \<open>
  Claim C9, amended: the block-read total is the sum of the values of the entries whose
  operation is exactly \<^verbatim>\<open>Read\<close> or exactly \<^verbatim>\<open>read\<close>, the block-write total the sum
  for exactly \<^verbatim>\<open>Write\<close> or \<^verbatim>\<open>write\<close>; entries with any other operation, other
  casings included, contribute nothing. The sums are \<^verbatim>\<open>uint64\<close> sums.
\<close>

theorem block_totals_exact_spellings:
  "GetBlockRead stats =
     sum_list (map Value (filter (\<lambda>e. Op e = ''Read'' \<or> Op e = ''read'')
       (IoServiceBytesRecursive (BlkioStats stats)))) \<and>
   GetBlockWrite stats =
     sum_list (map Value (filter (\<lambda>e. Op e = ''Write'' \<or> Op e = ''write'')
       (IoServiceBytesRecursive (BlkioStats stats))))"
  by (simp add: GetBlockRead_def GetBlockWrite_def GetBlockRead_loop_sum GetBlockWrite_loop_sum)

theorem block_totals_exact_spellings_witness:
  "GetBlockRead (sample 0 0 0 0 1 0 0
     [\<lparr>Op = ''Read'', Value = 3\<rparr>, \<lparr>Op = ''read'', Value = 4\<rparr>, \<lparr>Op = ''READ'', Value = 5\<rparr>,
      \<lparr>Op = ''Write'', Value = 7\<rparr>, \<lparr>Op = ''write'', Value = 1\<rparr>, \<lparr>Op = ''Sync'', Value = 9\<rparr>]) = 7 \<and>
   GetBlockWrite (sample 0 0 0 0 1 0 0
     [\<lparr>Op = ''Read'', Value = 3\<rparr>, \<lparr>Op = ''read'', Value = 4\<rparr>, \<lparr>Op = ''READ'', Value = 5\<rparr>,
      \<lparr>Op = ''Write'', Value = 7\<rparr>, \<lparr>Op = ''write'', Value = 1\<rparr>, \<lparr>Op = ''Sync'', Value = 9\<rparr>]) = 8"
  using block_totals_exact_spellings [of "sample 0 0 0 0 1 0 0
     [\<lparr>Op = ''Read'', Value = 3\<rparr>, \<lparr>Op = ''read'', Value = 4\<rparr>, \<lparr>Op = ''READ'', Value = 5\<rparr>,
      \<lparr>Op = ''Write'', Value = 7\<rparr>, \<lparr>Op = ''write'', Value = 1\<rparr>, \<lparr>Op = ''Sync'', Value = 9\<rparr>]"]
  by (simp add: sample_def)



subsection \<open>Mutating operations and the journal\<close>

lemma logAction_fst: "fst (logAction repo a b c e s err w) = err"
  by (simp add: logAction_def split: prod.splits)

text \<open>
  Claim C10: the error a mutating container operation (start, stop, restart, remove)
  returns is the error of the daemon call that failed (the inspection, else the
  operation itself) and \<open>None\<close> when the daemon calls succeeded. The right-hand sides
  mention neither the journal nor its state: whether \<^verbatim>\<open>Create\<close> fails changes nothing
  in what the operation reports.
\<close>

theorem mutating_ops_return_daemon_error:
  "fst (StartContainer dockerClient repo containerID w) =
     (case ContainerInspect dockerClient (fst w) containerID of
        Inl err \<Rightarrow> Some err
      | Inr containerJSON \<Rightarrow> fst (ContainerStart dockerClient (fst w) containerID)) \<and>
   fst (StopContainer dockerClient repo containerID w) =
     (case ContainerInspect dockerClient (fst w) containerID of
        Inl err \<Rightarrow> Some err
      | Inr containerJSON \<Rightarrow> fst (ContainerStop dockerClient (fst w) containerID)) \<and>
   fst (RestartContainer dockerClient repo containerID w) =
     (case ContainerInspect dockerClient (fst w) containerID of
        Inl err \<Rightarrow> Some err
      | Inr containerJSON \<Rightarrow> fst (ContainerRestart dockerClient (fst w) containerID)) \<and>
   fst (RemoveContainer dockerClient repo containerID force w) =
     (case ContainerInspect dockerClient (fst w) containerID of
        Inl err \<Rightarrow> Some err
      | Inr containerJSON \<Rightarrow> fst (ContainerRemove dockerClient (fst w) containerID force))"
  by (simp add: StartContainer_def StopContainer_def RestartContainer_def RemoveContainer_def
      logAction_fst split: sum.splits prod.splits option.splits)

theorem mutating_ops_return_daemon_error_witness:
  "fst (StartContainer s4Client brokenJournal ''a'' ((), [])) = None \<and>
   fst (StopContainer s4Client brokenJournal ''b'' ((), [])) = Some (OtherError ''conflict'') \<and>
   fst (RestartContainer s4Client brokenJournal ''x'' ((), [])) =
     Some (OtherError ''No such container'') \<and>
   fst (RemoveContainer s4Client brokenJournal ''c'' True ((), [])) = None"
  using mutating_ops_return_daemon_error [of s4Client brokenJournal "''a''" "((), [])" True]
    mutating_ops_return_daemon_error [of s4Client brokenJournal "''b''" "((), [])" True]
    mutating_ops_return_daemon_error [of s4Client brokenJournal "''x''" "((), [])" True]
    mutating_ops_return_daemon_error [of s4Client brokenJournal "''c''" "((), [])" True]
  by (simp add: s4Client_def stubClient_def)

subsection \<open>Bulk operations\<close>















subsection \<open>The log demultiplexer\<close>

declare GetLogs_loop.simps [simp del] StreamLogs_loop.simps [simp del]

lemma length_encodeHeader: "length (encodeHeader st n) = 8"
  by (simp add: encodeHeader_def)

lemma decodeSize_bits:
  fixes n :: uint32
  shows "push_bit 24 (ucast (ucast (drop_bit 24 n) :: byte)) OR
         push_bit 16 (ucast (ucast (drop_bit 16 n) :: byte)) OR
         push_bit 8 (ucast (ucast (drop_bit 8 n) :: byte)) OR
         ucast (ucast n :: byte) = n"
  apply (rule bit_eqI)
  apply (auto simp: bit_simps)
  subgoal for k by (cases "k < 16") auto
  subgoal for k by (cases "k < 16"; cases "k < 24") auto
  done

lemma decodeSize_encodeHeader: "decodeSize (encodeHeader st n) = n"
  using decodeSize_bits [of n] by (simp add: decodeSize_def encodeHeader_def)

lemma ReadFull_header:
  "ReadFull (encodeHeader st n @ rest) 8 = (Inr (encodeHeader st n), rest)"
  by (simp add: ReadFull_def length_encodeHeader)

lemma ReadFull_payload:
  "ReadFull (p @ rest) (length p) = (Inr p, rest)"
  by (simp add: ReadFull_def)

lemma ReadFull_short:
  "0 < length bs \<Longrightarrow> length bs < n \<Longrightarrow> ReadFull bs n = (Inl ErrUnexpectedEOF, [])"
  by (auto simp: ReadFull_def)

lemma ReadFull_empty: "0 < n \<Longrightarrow> ReadFull [] n = (Inl EOF, [])"
  by (simp add: ReadFull_def)

lemma unat_frame_length:
  "length p < 2 ^ 32 \<Longrightarrow> unat (word_of_nat (length p) :: uint32) = length p"
  by (simp add: unat_of_nat)

lemma frame_length_zero:
  "length p < 2 ^ 32 \<Longrightarrow> (word_of_nat (length p) :: uint32) = 0 \<longleftrightarrow> p = []"
proof
  assume a: "length p < 2 ^ 32" "(word_of_nat (length p) :: uint32) = 0"
  then have "unat (word_of_nat (length p) :: uint32) = 0" by simp
  with unat_frame_length [OF a(1)] show "p = []" by simp
next
  assume "p = []" then show "(word_of_nat (length p) :: uint32) = 0" by simp
qed

lemma GetLogs_loop_header:
  "GetLogs_loop (encodeHeader st n @ rest) result =
     (if n = 0 then GetLogs_loop rest result
      else case ReadFull rest (unat n) of
             (Inl err, _) \<Rightarrow>
               (if err = EOF then Inr result
                else Inl (Wrapped ''failed to read log payload'' err))
           | (Inr payload, reader'') \<Rightarrow> GetLogs_loop reader'' (result @ payload))"
  by (subst GetLogs_loop.simps) (simp add: ReadFull_header decodeSize_encodeHeader)

lemma GetLogs_loop_frame:
  assumes "length (snd f) < 2 ^ 32"
  shows "GetLogs_loop (encodeFrame f @ rest) result = GetLogs_loop rest (result @ snd f)"
  using assms
  by (simp add: encodeFrame_def GetLogs_loop_header frame_length_zero unat_frame_length
      ReadFull_payload)

lemma GetLogs_loop_frames:
  assumes "\<forall>f \<in> set frames. length (snd f) < 2 ^ 32"
  shows "GetLogs_loop (encodeFrames frames @ rest) result =
           GetLogs_loop rest (result @ concat (map snd frames))"
  using assms
  by (induction frames arbitrary: result) (simp_all add: encodeFrames_def GetLogs_loop_frame)

lemma GetLogs_loop_Nil: "GetLogs_loop [] result = Inr result"
  by (subst GetLogs_loop.simps) (simp add: ReadFull_def)

lemma GetLogs_loop_short_header:
  "0 < length tail \<Longrightarrow> length tail < 8 \<Longrightarrow>
   GetLogs_loop tail result = Inl (Wrapped ''failed to read log header'' ErrUnexpectedEOF)"
  by (subst GetLogs_loop.simps) (simp add: ReadFull_short)

lemma GetLogs_loop_short_payload:
  "0 < length p \<Longrightarrow> length p < unat n \<Longrightarrow>
   GetLogs_loop (encodeHeader st n @ p) result =
     Inl (Wrapped ''failed to read log payload'' ErrUnexpectedEOF)"
  by (auto simp: GetLogs_loop_header ReadFull_short)

lemma GetLogs_loop_no_payload:
  "n \<noteq> 0 \<Longrightarrow> GetLogs_loop (encodeHeader st n) result = Inr result"
  using GetLogs_loop_header [of st n "[]" result]
  by (simp add: ReadFull_empty unat_gt_0)

lemma StreamLogs_loop_header:
  "ctxErr i = None \<Longrightarrow>
   StreamLogs_loop ctxErr writeErr (encodeHeader st n @ rest) i written =
     (if n = 0 then StreamLogs_loop ctxErr writeErr rest (Suc i) written
      else case ReadFull rest (unat n) of
             (Inl err, _) \<Rightarrow>
               (if err = EOF then (None, written)
                else (Some (Wrapped ''failed to read log payload'' err), written))
           | (Inr payload, reader'') \<Rightarrow>
               (case writeErr (length written) payload of
                  Some err \<Rightarrow> (Some (Wrapped ''failed to write log data'' err), written)
                | None \<Rightarrow>
                    StreamLogs_loop ctxErr writeErr reader'' (Suc i) (written @ [payload])))"
  by (subst StreamLogs_loop.simps) (simp add: ReadFull_header decodeSize_encodeHeader)

lemma StreamLogs_loop_frame:
  assumes "length (snd f) < 2 ^ 32" and "ctxErr i = None" and "writeErr (length written) (snd f) = None"
  shows "StreamLogs_loop ctxErr writeErr (encodeFrame f @ rest) i written =
           StreamLogs_loop ctxErr writeErr rest (Suc i) (written @ filter (\<lambda>p. p \<noteq> []) [snd f])"
  using assms
  by (simp add: encodeFrame_def StreamLogs_loop_header frame_length_zero unat_frame_length
      ReadFull_payload)

lemma StreamLogs_loop_frames:
  assumes "\<forall>f \<in> set frames. length (snd f) < 2 ^ 32"
    and "\<forall>i. ctxErr i = None" and "\<forall>k p. writeErr k p = None"
  shows "StreamLogs_loop ctxErr writeErr (encodeFrames frames @ rest) i written =
           StreamLogs_loop ctxErr writeErr rest (i + length frames)
             (written @ filter (\<lambda>p. p \<noteq> []) (map snd frames))"
  using assms(1)
proof (induction frames arbitrary: i written)
  case Nil
  then show ?case by (simp add: encodeFrames_def)
next
  case (Cons f frames)
  then have "length (snd f) < 2 ^ 32" and rest: "\<forall>f \<in> set frames. length (snd f) < 2 ^ 32"
    by simp_all
  from StreamLogs_loop_frame [OF this(1), of ctxErr i writeErr written] assms(2,3)
  have "StreamLogs_loop ctxErr writeErr (encodeFrame f @ encodeFrames frames @ rest) i written =
        StreamLogs_loop ctxErr writeErr (encodeFrames frames @ rest) (Suc i)
          (written @ filter (\<lambda>p. p \<noteq> []) [snd f])"
    by blast
  with Cons.IH [OF rest] show ?case
    by (simp add: encodeFrames_def)
qed

lemma StreamLogs_loop_Nil:
  "ctxErr i = None \<Longrightarrow> StreamLogs_loop ctxErr writeErr [] i written = (None, written)"
  by (subst StreamLogs_loop.simps) (simp add: ReadFull_def)

lemma StreamLogs_loop_short_header:
  "ctxErr i = None \<Longrightarrow> 0 < length tail \<Longrightarrow> length tail < 8 \<Longrightarrow>
   StreamLogs_loop ctxErr writeErr tail i written =
     (Some (Wrapped ''failed to read log header'' ErrUnexpectedEOF), written)"
  by (subst StreamLogs_loop.simps) (simp add: ReadFull_short)

lemma StreamLogs_loop_short_payload:
  "ctxErr i = None \<Longrightarrow> 0 < length p \<Longrightarrow> length p < unat n \<Longrightarrow>
   StreamLogs_loop ctxErr writeErr (encodeHeader st n @ p) i written =
     (Some (Wrapped ''failed to read log payload'' ErrUnexpectedEOF), written)"
  by (auto simp: StreamLogs_loop_header ReadFull_short)

lemma StreamLogs_loop_no_payload:
  "ctxErr i = None \<Longrightarrow> n \<noteq> 0 \<Longrightarrow>
   StreamLogs_loop ctxErr writeErr (encodeHeader st n) i written = (None, written)"
  using StreamLogs_loop_header [of ctxErr i writeErr st n "[]" written]
  by (simp add: ReadFull_empty unat_gt_0)

lemma ContainerLogs_logsClient: "ContainerLogs (logsClient stream) d containerID logOpts = Inr stream"
  by (simp add: logsClient_def stubClient_def)

text \<open>
  Claim C3: when the daemon's stream is a sequence of well-formed frames (each an
  eight-byte header carrying the payload's length big-endian in bytes 4 to 7, then the
  payload), \<^verbatim>\<open>GetLogs\<close> returns the payloads concatenated and nothing else, and
  \<^verbatim>\<open>StreamLogs\<close>, when its context is not cancelled and its writer accepts every
  chunk, writes the non-empty payloads one chunk each, in order, and ends without error;
  a frame of length 0 emits nothing. The number of bytes emitted is the sum of the
  payload lengths. The witness is scenario S3.
\<close>

theorem demux_well_formed_stream:
  assumes "\<forall>f \<in> set frames. length (snd f) < 2 ^ 32"
    and "\<forall>logOpts. ContainerLogs dockerClient d containerID logOpts = Inr (encodeFrames frames)"
  shows "GetLogs dockerClient d containerID opts = Inr (concat (map snd frames)) \<and>
         StreamLogs dockerClient d (\<lambda>i. None) containerID opts (\<lambda>k p. None) =
           Inr (None, filter (\<lambda>p. p \<noteq> []) (map snd frames)) \<and>
         length (concat (map snd frames)) = sum_list (map (\<lambda>f. length (snd f)) frames)"
proof -
  have g: "GetLogs_loop (encodeFrames frames) [] = Inr (concat (map snd frames))"
    using GetLogs_loop_frames [OF assms(1), of "[]" "[]"] by (simp add: GetLogs_loop_Nil)
  have s: "StreamLogs_loop (\<lambda>i. None) (\<lambda>k p. None) (encodeFrames frames) 0 [] =
             (None, filter (\<lambda>p. p \<noteq> []) (map snd frames))"
    using StreamLogs_loop_frames [OF assms(1), of "\<lambda>i. None" "\<lambda>k p. None" "[]" 0 "[]"]
    by (simp add: StreamLogs_loop_Nil)
  have l: "length (concat (map snd frames)) = sum_list (map (\<lambda>f. length (snd f)) frames)"
    by (simp add: length_concat comp_def)
  from g s l assms(2) show ?thesis
    by (simp add: GetLogs_def StreamLogs_def)
qed

lemma s3_bytes:
  "encodeFrames [(1, bytesOf ''hello''), (2, bytesOf ''err'')] =
     [1, 0, 0, 0, 0, 0, 0, 5, 104, 101, 108, 108, 111, 2, 0, 0, 0, 0, 0, 0, 3, 101, 114, 114]"
  by (simp add: encodeFrames_def encodeFrame_def encodeHeader_def bytesOf_def)

theorem demux_well_formed_stream_witness:
  "GetLogs (logsClient [1, 0, 0, 0, 0, 0, 0, 5, 104, 101, 108, 108, 111,
                        2, 0, 0, 0, 0, 0, 0, 3, 101, 114, 114]) () ''c1'' tailOpts =
     Inr (bytesOf ''helloerr'') \<and>
   StreamLogs (logsClient [1, 0, 0, 0, 0, 0, 0, 5, 104, 101, 108, 108, 111,
                           2, 0, 0, 0, 0, 0, 0, 3, 101, 114, 114]) () (\<lambda>i. None) ''c1'' tailOpts
       (\<lambda>k p. None) = Inr (None, [bytesOf ''hello'', bytesOf ''err''])"
proof -
  let ?frames = "[(1, bytesOf ''hello''), (2, bytesOf ''err'')] :: (byte \<times> byte list) list"
  have wf: "\<forall>f \<in> set ?frames. length (snd f) < 2 ^ 32"
    by (simp add: bytesOf_def)
  have st: "\<forall>logOpts. ContainerLogs (logsClient (encodeFrames ?frames)) () ''c1'' logOpts =
              Inr (encodeFrames ?frames)"
    by (simp add: ContainerLogs_logsClient)
  from demux_well_formed_stream [OF wf st, of tailOpts]
  show ?thesis
    by (simp add: s3_bytes) (simp add: bytesOf_def)
qed

text \<open>
  Claim C4, as stated, fails: a stream that ends right after a header declaring five
  payload bytes ends inside a frame, yet both loops end normally, because the payload
  read sees \<^verbatim>\<open>io.EOF\<close> (no byte read) and the code treats that as the end of the
  stream.
\<close>

theorem eof_after_header_ends_normally:
  "GetLogs (logsClient [1, 0, 0, 0, 0, 0, 0, 5]) () ''c1'' tailOpts = Inr [] \<and>
   StreamLogs (logsClient [1, 0, 0, 0, 0, 0, 0, 5]) () (\<lambda>i. None) ''c1'' tailOpts (\<lambda>k p. None) =
     Inr (None, [])"
  by (simp add: GetLogs_def StreamLogs_def ContainerLogs_logsClient tailOpts_def
      GetLogs_loop.simps StreamLogs_loop.simps ReadFull_def decodeSize_def)

text \<open>
  Claim C4, amended: after any sequence of whole frames, a stream that ends after 1 to 7
  bytes of a header, or after at least one but not all of the payload bytes a header
  declares, makes both loops report an error that wraps \<^verbatim>\<open>io.ErrUnexpectedEOF\<close>;
  a stream that ends between frames, or right after a complete header that declares a
  non-zero length (no payload byte at all), ends both loops normally, with the payloads
  of the whole frames emitted.
\<close>

theorem truncated_stream_outcome:
  assumes "\<forall>f \<in> set frames. length (snd f) < 2 ^ 32"
    and "\<forall>logOpts. ContainerLogs dockerClient d containerID logOpts =
           Inr (encodeFrames frames @ rest)"
  shows
    "(0 < length rest \<and> length rest < 8 \<longrightarrow>
        GetLogs dockerClient d containerID opts =
          Inl (Wrapped ''failed to read log header'' ErrUnexpectedEOF) \<and>
        StreamLogs dockerClient d (\<lambda>i. None) containerID opts (\<lambda>k p. None) =
          Inr (Some (Wrapped ''failed to read log header'' ErrUnexpectedEOF),
               filter (\<lambda>p. p \<noteq> []) (map snd frames))) \<and>
     (\<forall>st n p. rest = encodeHeader st n @ p \<and> 0 < length p \<and> length p < unat n \<longrightarrow>
        GetLogs dockerClient d containerID opts =
          Inl (Wrapped ''failed to read log payload'' ErrUnexpectedEOF) \<and>
        StreamLogs dockerClient d (\<lambda>i. None) containerID opts (\<lambda>k p. None) =
          Inr (Some (Wrapped ''failed to read log payload'' ErrUnexpectedEOF),
               filter (\<lambda>p. p \<noteq> []) (map snd frames))) \<and>
     (\<forall>st n. rest = encodeHeader st n \<and> n \<noteq> 0 \<longrightarrow>
        GetLogs dockerClient d containerID opts = Inr (concat (map snd frames)) \<and>
        StreamLogs dockerClient d (\<lambda>i. None) containerID opts (\<lambda>k p. None) =
          Inr (None, filter (\<lambda>p. p \<noteq> []) (map snd frames))) \<and>
     (rest = [] \<longrightarrow>
        GetLogs dockerClient d containerID opts = Inr (concat (map snd frames)) \<and>
        StreamLogs dockerClient d (\<lambda>i. None) containerID opts (\<lambda>k p. None) =
          Inr (None, filter (\<lambda>p. p \<noteq> []) (map snd frames)))"
proof -
  have g: "GetLogs dockerClient d containerID opts =
             GetLogs_loop rest (concat (map snd frames))"
    using GetLogs_loop_frames [OF assms(1), of rest "[]"] assms(2)
    by (simp add: GetLogs_def)
  have s: "StreamLogs dockerClient d (\<lambda>i. None) containerID opts (\<lambda>k p. None) =
             Inr (StreamLogs_loop (\<lambda>i. None) (\<lambda>k p. None) rest (length frames)
                    (filter (\<lambda>p. p \<noteq> []) (map snd frames)))"
    using StreamLogs_loop_frames [OF assms(1), of "\<lambda>i. None" "\<lambda>k p. None" rest 0 "[]"] assms(2)
    by (simp add: StreamLogs_def)
  show ?thesis
    unfolding g s
    by (simp add: GetLogs_loop_short_header GetLogs_loop_short_payload GetLogs_loop_no_payload
        GetLogs_loop_Nil StreamLogs_loop_short_header StreamLogs_loop_short_payload
        StreamLogs_loop_no_payload StreamLogs_loop_Nil)
qed

lemma s3_prefix:
  "encodeFrames [(1, bytesOf ''hello'')] = [1, 0, 0, 0, 0, 0, 0, 5, 104, 101, 108, 108, 111]"
  by (simp add: encodeFrames_def encodeFrame_def encodeHeader_def bytesOf_def)

lemma header_2_3: "encodeHeader 2 3 = [2, 0, 0, 0, 0, 0, 0, 3]"
  by (simp add: encodeHeader_def)

theorem truncated_stream_outcome_witness:
  "GetLogs (logsClient [1, 0, 0, 0, 0, 0, 0, 5, 104, 101, 108, 108, 111, 2, 0, 0])
     () ''c1'' tailOpts = Inl (Wrapped ''failed to read log header'' ErrUnexpectedEOF) \<and>
   GetLogs (logsClient [1, 0, 0, 0, 0, 0, 0, 5, 104, 101, 108, 108, 111, 2, 0, 0, 0, 0, 0, 0, 3, 101])
     () ''c1'' tailOpts = Inl (Wrapped ''failed to read log payload'' ErrUnexpectedEOF) \<and>
   GetLogs (logsClient [1, 0, 0, 0, 0, 0, 0, 5, 104, 101, 108, 108, 111, 2, 0, 0, 0, 0, 0, 0, 3])
     () ''c1'' tailOpts = Inr (bytesOf ''hello'') \<and>
   GetLogs (logsClient [1, 0, 0, 0, 0, 0, 0, 5, 104, 101, 108, 108, 111])
     () ''c1'' tailOpts = Inr (bytesOf ''hello'')"
proof -
  let ?frames = "[(1, bytesOf ''hello'')] :: (byte \<times> byte list) list"
  have wf: "\<forall>f \<in> set ?frames. length (snd f) < 2 ^ 32"
    by (simp add: bytesOf_def)
  have st: "\<forall>logOpts. ContainerLogs (logsClient (encodeFrames ?frames @ rest)) () ''c1'' logOpts =
              Inr (encodeFrames ?frames @ rest)" for rest
    by (simp add: ContainerLogs_logsClient)
  have a: "GetLogs (logsClient (encodeFrames ?frames @ [2, 0, 0])) () ''c1'' tailOpts =
             Inl (Wrapped ''failed to read log header'' ErrUnexpectedEOF)"
    using truncated_stream_outcome [OF wf st, of "[2, 0, 0]" tailOpts] by simp
  have b: "GetLogs (logsClient (encodeFrames ?frames @ encodeHeader 2 3 @ [101])) () ''c1'' tailOpts =
             Inl (Wrapped ''failed to read log payload'' ErrUnexpectedEOF)"
    using truncated_stream_outcome [OF wf st, of "encodeHeader 2 3 @ [101]" tailOpts] by fastforce
  have c: "GetLogs (logsClient (encodeFrames ?frames @ encodeHeader 2 3)) () ''c1'' tailOpts =
             Inr (concat (map snd ?frames))"
    using truncated_stream_outcome [OF wf st, of "encodeHeader 2 3" tailOpts] by fastforce
  have d: "GetLogs (logsClient (encodeFrames ?frames @ [])) () ''c1'' tailOpts =
             Inr (concat (map snd ?frames))"
    using truncated_stream_outcome [OF wf st, of "[]" tailOpts] by simp
  from a b c d show ?thesis
    by (simp add: s3_prefix header_2_3)
qed

subsection \<open>The log archive\<close>

lemma GetLogs_loop_well_formed:
  "\<forall>f \<in> set frames. length (snd f) < 2 ^ 32 \<Longrightarrow>
   GetLogs_loop (encodeFrames frames) [] = Inr (concat (map snd frames))"
  using GetLogs_loop_frames [of frames "[]" "[]"] by (simp add: GetLogs_loop_Nil)

text \<open>
  Claim C6 says that the archive is built with the caller's \<^verbatim>\<open>tail\<close> and
  \<^verbatim>\<open>timestamps\<close>. \<^verbatim>\<open>DownloadLogs\<close> never reads the query and
  \<^verbatim>\<open>CreateLogArchive\<close> asks for \<^verbatim>\<open>Tail: "all", Timestamps: true\<close>: a request with
  \<^verbatim>\<open>tail=10&timestamps=false\<close> gets the whole log with timestamps. The entry's
  name is the container's name without its leading slash, an underscore, the time stamp
  and \<^verbatim>\<open>.log\<close>, as the claim says.
\<close>

theorem download_ignores_query:
  "DownloadLogs optionClient () [''tail'' \<mapsto> ''10'', ''timestamps'' \<mapsto> ''false'']
     ''0123456789abcdef'' ''20240101-120000'' (\<lambda>name. None) (\<lambda>content. None) =
   DownloadZip ''attachment; filename=container-0123456789ab-logs.zip''
     [(''web_20240101-120000.log'', bytesOf ''2024 first line2024 last line'')]"
proof -
  let ?frames = "[(1, bytesOf ''2024 first line''), (1, bytesOf ''2024 last line'')] ::
    (byte \<times> byte list) list"
  have "GetLogs_loop (encodeFrames ?frames) [] = Inr (concat (map snd ?frames))"
    by (rule GetLogs_loop_well_formed) (simp add: bytesOf_def)
  then have "GetLogs optionClient () ''0123456789abcdef''
               \<lparr>Follow = False, Tail = ''all'', Since = '''', Until = '''', Timestamps = True\<rparr> =
             Inr (bytesOf ''2024 first line2024 last line'')"
    by (simp add: GetLogs_def optionClient_def stubClient_def bytesOf_def)
  then show ?thesis
    by (simp add: DownloadLogs_def CreateLogArchive_def optionClient_def stubClient_def)
qed


subsection \<open>The stats cache\<close>

lemma delivered_Cons:
  "delivered (r # rs) =
     (if res_err r = None \<and> res_stats r \<noteq> None
      then (res_containerID r, the (res_stats r)) # delivered rs else delivered rs)"
  by (simp add: delivered_def)

lemma delivered_Nil: "delivered [] = []"
  by (simp add: delivered_def)

lemma refresh_collect_closed:
  "refresh_collect rnd rs (m, s) = (m', s') \<Longrightarrow>
   m' = foldl (\<lambda>m (i, x). m(i \<mapsto> x)) m (delivered rs) \<and>
   ContainerCount s' = ContainerCount s + int (length (delivered rs)) \<and>
   TotalCPUPercent s' = foldl (fadd rnd) (TotalCPUPercent s) (map (\<lambda>(i, x). CPUPercent x) (delivered rs))"
proof (induction rs arbitrary: m s)
  case Nil
  then show ?case by (simp add: delivered_Nil)
next
  case (Cons r rs)
  show ?case
  proof (cases "res_err r = None \<and> res_stats r \<noteq> None")
    case True
    then obtain x where x: "res_stats r = Some x" by auto
    from Cons.prems True x
    have "refresh_collect rnd rs
            (m(res_containerID r \<mapsto> x),
             s\<lparr>TotalCPUPercent := fadd rnd (TotalCPUPercent s) (CPUPercent x),
               TotalMemoryUsage := TotalMemoryUsage s + MemoryUsage x,
               TotalMemoryLimit := TotalMemoryLimit s + MemoryLimit x,
               TotalNetworkRx := TotalNetworkRx s + NetworkRx x,
               TotalNetworkTx := TotalNetworkTx s + NetworkTx x,
               ContainerCount := ContainerCount s + 1\<rparr>) = (m', s')"
      by simp
    from Cons.IH [OF this] True x show ?thesis
      by (simp add: delivered_Cons)
  next
    case False
    with Cons.prems have "refresh_collect rnd rs (m, s) = (m', s')"
      by (auto split: option.splits)
    from Cons.IH [OF this] False show ?thesis
      by (simp add: delivered_Cons)
  qed
qed

lemma foldl_upd_distinct:
  "distinct (map fst L) \<Longrightarrow> foldl (\<lambda>m (i, x). m(i \<mapsto> x)) m L = m ++ map_of L"
proof (induction L arbitrary: m)
  case Nil
  then show ?case by simp
next
  case (Cons a L)
  obtain k v where a: "a = (k, v)" by (cases a)
  from Cons.prems a have k: "k \<notin> fst ` set L" and d: "distinct (map fst L)" by auto
  from k have nd: "k \<notin> dom (map_of L)" by (simp add: dom_map_of_conv_image_fst)
  have "foldl (\<lambda>m (i, x). m(i \<mapsto> x)) m (a # L) =
        foldl (\<lambda>m (i, x). m(i \<mapsto> x)) (m(k \<mapsto> v)) L"
    by (simp add: a)
  also have "\<dots> = m(k \<mapsto> v) ++ map_of L"
    by (rule Cons.IH [OF d])
  also have "\<dots> = (m ++ map_of L)(k \<mapsto> v)"
    by (rule map_add_upd_left [OF nd])
  also have "\<dots> = m ++ map_of (a # L)"
    by (simp add: a)
  finally show ?case .
qed

lemma sampleTask_id: "res_containerID (sampleTask dc d i) = i"
  by (simp add: sampleTask_def split: sum.splits)

lemma sampleTask_delivered:
  "(res_err (sampleTask dc d i) = None \<and> res_stats (sampleTask dc d i) \<noteq> None) =
     (\<exists>s. getContainerStats dc d i = Inr s)"
  by (auto simp: sampleTask_def split: sum.splits)

lemma sampleTask_stats:
  "getContainerStats dc d i = Inr s \<Longrightarrow> res_stats (sampleTask dc d i) = Some s"
  by (simp add: sampleTask_def)

lemma delivered_keys:
  "map fst (delivered rs) =
     map res_containerID (filter (\<lambda>r. res_err r = None \<and> res_stats r \<noteq> None) rs)"
  by (simp add: delivered_def comp_def)

lemma collect_snapshot:
  assumes dist: "distinct (map res_containerID arrived)"
    and coll: "refresh_collect rnd arrived (Map.empty, zeroSummary) = (newStats, summary)"
  shows "newStats = map_of (delivered arrived)"
    and "distinct (map fst (delivered arrived))"
    and "ContainerCount summary = int (card (dom newStats))"
    and "TotalCPUPercent summary =
           fsum rnd (map (\<lambda>i. CPUPercent (the (newStats i))) (map fst (delivered arrived)))"
    and "set (map fst (delivered arrived)) = dom newStats"
proof -
  let ?L = "delivered arrived"
  show dl: "distinct (map fst ?L)"
    unfolding delivered_keys using dist by (rule distinct_map_filter)
  from refresh_collect_closed [OF coll]
  have m: "newStats = foldl (\<lambda>m (i, x). m(i \<mapsto> x)) Map.empty ?L"
    and c: "ContainerCount summary = int (length ?L)"
    and t: "TotalCPUPercent summary = foldl (fadd rnd) (Finite 0) (map (\<lambda>(i, x). CPUPercent x) ?L)"
    by (simp_all add: zeroSummary_def)
  from m foldl_upd_distinct [OF dl, of Map.empty]
  show ns: "newStats = map_of ?L" by simp
  have dom: "dom newStats = set (map fst ?L)"
    by (simp add: ns dom_map_of_conv_image_fst)
  have "card (dom newStats) = length (map fst ?L)"
    unfolding dom using dl by (rule distinct_card)
  with c show "ContainerCount summary = int (card (dom newStats))" by simp
  show "TotalCPUPercent summary =
          fsum rnd (map (\<lambda>i. CPUPercent (the (newStats i))) (map fst (delivered arrived)))"
  proof -
    have "map (\<lambda>i. CPUPercent (the (newStats i))) (map fst ?L) =
          map (\<lambda>(i, x). CPUPercent x) ?L"
      using dl by (auto simp: ns)
    with t show ?thesis by (simp only: fsum_def)
  qed
  from dom show "set (map fst (delivered arrived)) = dom newStats" by simp
qed

lemma arrived_ids:
  assumes "mset arrived = mset (map (\<lambda>c. sampleTask dc d (ID c)) containers)"
  shows "mset (map res_containerID arrived) = mset (map ID containers)"
proof -
  have "mset (map res_containerID arrived) =
        mset (map res_containerID (map (\<lambda>c. sampleTask dc d (ID c)) containers))"
    using assms by (metis mset_map)
  then show ?thesis by (simp add: comp_def sampleTask_id)
qed

lemma delivered_entry:
  assumes "mset arrived = mset (map (\<lambda>c. sampleTask dc d (ID c)) containers)"
  shows "((i, s) \<in> set (delivered arrived)) =
           (i \<in> ID ` set containers \<and> getContainerStats dc d i = Inr s)"
proof -
  have st: "set arrived = (\<lambda>c. sampleTask dc d (ID c)) ` set containers"
    using mset_eq_setD [OF assms] by simp
  show ?thesis
  proof
    assume "(i, s) \<in> set (delivered arrived)"
    then obtain r where r: "r \<in> set arrived" "res_err r = None" "res_stats r \<noteq> None"
      "i = res_containerID r" "s = the (res_stats r)"
      by (auto simp: delivered_def)
    from r(1) st obtain c where c: "c \<in> set containers" "r = sampleTask dc d (ID c)" by auto
    from r(2,3) c(2) obtain s' where s': "getContainerStats dc d (ID c) = Inr s'"
      using sampleTask_delivered [of dc d "ID c"] by auto
    from sampleTask_stats [OF s'] r(4,5) c s'
    show "i \<in> ID ` set containers \<and> getContainerStats dc d i = Inr s"
      by (simp add: sampleTask_id)
  next
    assume a: "i \<in> ID ` set containers \<and> getContainerStats dc d i = Inr s"
    then obtain c where c: "c \<in> set containers" "i = ID c" by auto
    let ?r = "sampleTask dc d (ID c)"
    from c st have "?r \<in> set arrived" by auto
    moreover from a c have "res_err ?r = None \<and> res_stats ?r \<noteq> None"
      using sampleTask_delivered [of dc d "ID c"] by auto
    moreover from a c have "res_stats ?r = Some s" by (simp add: sampleTask_stats)
    ultimately have "(res_containerID ?r, the (res_stats ?r)) \<in> set (delivered arrived)"
      by (auto simp: delivered_def)
    with c \<open>res_stats ?r = Some s\<close> show "(i, s) \<in> set (delivered arrived)"
      by (simp add: sampleTask_id)
  qed
qed

text \<open>
  Claim C5: the cache a call of \<^verbatim>\<open>refresh\<close> publishes is consistent, whatever the
  order in which the samplers' results arrive. The summary's container count is the
  number of entries of the per-container map; its total CPU percentage is the sum of the
  CPU percentages of exactly those entries, each taken once, added from the left in the
  order in which their results arrived; and the entries are exactly the listed
  containers whose sampler returned stats, so that a container whose sampler failed adds
  to neither. The daemon lists each container once. The statement holds for every
  rounding of the addition, since the total is the code's own accumulation, read off
  the entries of the map; it does not say that another order gives the same total.
\<close>

theorem refresh_snapshot_consistent:
  assumes "refresh rnd dockerClient d c c'"
    and "ContainerList dockerClient d False = Inr containers"
    and "distinct (map ID containers)"
  shows "ContainerCount (GetDashboardSummary c') = int (card (dom (GetAllContainerStats c'))) \<and>
         (\<exists>ids. distinct ids \<and> set ids = dom (GetAllContainerStats c') \<and>
            TotalCPUPercent (GetDashboardSummary c') =
              fsum rnd (map (\<lambda>i. CPUPercent (the (GetAllContainerStats c' i))) ids)) \<and>
         (\<forall>i s. (GetAllContainerStats c' i = Some s) =
            (i \<in> ID ` set containers \<and> getContainerStats dockerClient d i = Inr s))"
  using assms(1)
proof (cases rule: refresh.cases)
  case (refresh_list_failed e)
  with assms(2) show ?thesis by simp
next
  case refresh_no_containers
  have "distinct ([] :: string list) \<and> set ([] :: string list) = dom (Map.empty :: string \<rightharpoonup> ContainerStats) \<and>
        Finite 0 = fsum rnd (map (\<lambda>i. CPUPercent (the ((Map.empty :: string \<rightharpoonup> ContainerStats) i))) [])"
    by (simp add: fsum_def)
  then have "\<exists>ids. distinct ids \<and> set ids = dom (Map.empty :: string \<rightharpoonup> ContainerStats) \<and>
        Finite 0 = fsum rnd (map (\<lambda>i. CPUPercent (the ((Map.empty :: string \<rightharpoonup> ContainerStats) i))) ids)"
    by (rule exI)
  with refresh_no_containers assms(2) show ?thesis
    by (simp add: GetDashboardSummary_def GetAllContainerStats_def zeroSummary_def)
next
  case (refresh_publish containers' arrived newStats summary)
  with assms(2) have arr: "mset arrived = mset (map (\<lambda>c. sampleTask dockerClient d (ID c)) containers)"
    by simp
  from arrived_ids [OF arr] assms(3) have dist: "distinct (map res_containerID arrived)"
    by (metis mset_eq_imp_distinct_iff)
  note snap = collect_snapshot [OF dist refresh_publish(5)]
  have fin: "ContainerCount (refresh_finish summary) = ContainerCount summary"
    "TotalCPUPercent (refresh_finish summary) = TotalCPUPercent summary"
    by (simp_all add: refresh_finish_def)
  have ent: "(newStats i = Some s) =
               (i \<in> ID ` set containers \<and> getContainerStats dockerClient d i = Inr s)" for i s
    using delivered_entry [OF arr, of i s] snap(2) by (simp add: snap(1))
  from snap(2,4,5)
  have "distinct (map fst (delivered arrived)) \<and>
        set (map fst (delivered arrived)) = dom newStats \<and>
        TotalCPUPercent summary =
          fsum rnd (map (\<lambda>i. CPUPercent (the (newStats i))) (map fst (delivered arrived)))"
    by simp
  then have ex: "\<exists>ids. distinct ids \<and> set ids = dom newStats \<and>
        TotalCPUPercent summary = fsum rnd (map (\<lambda>i. CPUPercent (the (newStats i))) ids)"
    by (rule exI)
  from snap(3) ex fin ent show ?thesis
    by (simp add: refresh_publish(1) GetDashboardSummary_def GetAllContainerStats_def)
qed

lemma fleet_stats:
  "getContainerStats fleetClient () ''a'' =
     Inr \<lparr>CPUPercent = Finite 20, MemoryUsage = 512, MemoryLimit = 1024,
          MemoryPercent = Finite 50, NetworkRx = 0, NetworkTx = 0, BlockRead = 0, BlockWrite = 0\<rparr>"
  "getContainerStats fleetClient () ''b'' = Inl (OtherError ''context deadline exceeded'')"
  "getContainerStats fleetClient () ''c'' =
     Inr \<lparr>CPUPercent = Finite 5, MemoryUsage = 1, MemoryLimit = 4,
          MemoryPercent = Finite 25, NetworkRx = 0, NetworkTx = 0, BlockRead = 0, BlockWrite = 0\<rparr>"
  by (simp_all add: getContainerStats_def fleetClient_def stubClient_def CalculateCPUPercent_def
      sample_def float64_of_uint64_def float64_of_nat_def GetNetworkRx_def GetNetworkTx_def
      GetBlockRead_def GetBlockWrite_def)

lemma fleet_snapshot:
  "snapshotOf noRounding fleetArrived =
     \<lparr>containerStats =
        [''c'' \<mapsto> \<lparr>CPUPercent = Finite 5, MemoryUsage = 1, MemoryLimit = 4,
          MemoryPercent = Finite 25, NetworkRx = 0, NetworkTx = 0, BlockRead = 0, BlockWrite = 0\<rparr>,
         ''a'' \<mapsto> \<lparr>CPUPercent = Finite 20, MemoryUsage = 512, MemoryLimit = 1024,
          MemoryPercent = Finite 50, NetworkRx = 0, NetworkTx = 0, BlockRead = 0, BlockWrite = 0\<rparr>],
      dashboardSummary = Some \<lparr>TotalCPUPercent = Finite 25, TotalMemoryUsage = 513,
        TotalMemoryLimit = 1028, TotalMemoryPercent = Finite (513 / 1028 * 100),
        TotalNetworkRx = 0, TotalNetworkTx = 0, ContainerCount = 2\<rparr>\<rparr>"
  by (simp add: snapshotOf_def fleetArrived_def sampleTask_def fleet_stats zeroSummary_def noRounding_def
      refresh_finish_def float64_of_uint64_def float64_of_nat_def)

theorem refresh_snapshot_consistent_witness:
  "refresh noRounding fleetClient () NewStatsCache (snapshotOf noRounding fleetArrived) \<and>
   dom (GetAllContainerStats (snapshotOf noRounding fleetArrived)) = {''a'', ''c''} \<and>
   ContainerCount (GetDashboardSummary (snapshotOf noRounding fleetArrived)) = 2 \<and>
   (\<exists>ids. distinct ids \<and> set ids = {''a'', ''c''} \<and>
      TotalCPUPercent (GetDashboardSummary (snapshotOf noRounding fleetArrived)) =
        fsum noRounding (map (\<lambda>i. CPUPercent (the (GetAllContainerStats (snapshotOf noRounding fleetArrived) i))) ids)) \<and>
   TotalCPUPercent (GetDashboardSummary (snapshotOf noRounding fleetArrived)) = fsum noRounding [Finite 5, Finite 20]"
proof -
  let ?cs = "[\<lparr>ID = ''a'', Names = [''/alpha'']\<rparr>, \<lparr>ID = ''b'', Names = [''/beta'']\<rparr>,
              \<lparr>ID = ''c'', Names = [''/gamma'']\<rparr>]"
  obtain m s where ms: "refresh_collect noRounding fleetArrived (Map.empty, zeroSummary) = (m, s)"
    by (cases "refresh_collect noRounding fleetArrived (Map.empty, zeroSummary)")
  have snap: "snapshotOf noRounding fleetArrived =
                \<lparr>containerStats = m, dashboardSummary = Some (refresh_finish s)\<rparr>"
    by (simp add: snapshotOf_def ms)
  have list: "ContainerList fleetClient () False = Inr ?cs"
    by (simp add: fleetClient_def stubClient_def)
  have r: "refresh noRounding fleetClient () NewStatsCache (snapshotOf noRounding fleetArrived)"
    unfolding snap
  proof (rule refresh_publish [OF list _ _ ms])
    show "?cs \<noteq> []" by simp
    show "mset fleetArrived = mset (map (\<lambda>c. sampleTask fleetClient () (ID c)) ?cs)"
      by (simp add: fleetArrived_def add_mset_commute)
  qed
  have d: "distinct (map ID ?cs)" by simp
  have dom: "dom (GetAllContainerStats (snapshotOf noRounding fleetArrived)) = {''a'', ''c''}"
    by (auto simp: fleet_snapshot GetAllContainerStats_def)
  from refresh_snapshot_consistent [OF r list d]
  have c: "ContainerCount (GetDashboardSummary (snapshotOf noRounding fleetArrived)) =
             int (card (dom (GetAllContainerStats (snapshotOf noRounding fleetArrived))))"
    and t: "\<exists>ids. distinct ids \<and> set ids = dom (GetAllContainerStats (snapshotOf noRounding fleetArrived)) \<and>
            TotalCPUPercent (GetDashboardSummary (snapshotOf noRounding fleetArrived)) =
              fsum noRounding (map (\<lambda>i. CPUPercent (the (GetAllContainerStats (snapshotOf noRounding fleetArrived) i))) ids)"
    by blast+
  from c have c2: "ContainerCount (GetDashboardSummary (snapshotOf noRounding fleetArrived)) = 2"
    by (simp add: dom)
  from t have t2: "\<exists>ids. distinct ids \<and> set ids = {''a'', ''c''} \<and>
      TotalCPUPercent (GetDashboardSummary (snapshotOf noRounding fleetArrived)) =
        fsum noRounding (map (\<lambda>i. CPUPercent (the (GetAllContainerStats (snapshotOf noRounding fleetArrived) i))) ids)"
    by (simp only: dom)
  have t3: "TotalCPUPercent (GetDashboardSummary (snapshotOf noRounding fleetArrived)) =
              fsum noRounding [Finite 5, Finite 20]"
    by (simp add: fleet_snapshot GetDashboardSummary_def fsum_def noRounding_def)
  from r dom c2 t2 t3 show ?thesis by blast
qed

end
